theory Spec2Isabelle
  imports Complex_Main "HOL-Library.Word" "HOL-Library.Sublist"
begin

section \<open>Gandiva projector: cache key, build, evaluation and buffer shapes\<close>

text \<open>
  A shallow embedding of \<^verbatim>\<open>cpp/src/gandiva/projector.cc\<close>: the class
  \<^verbatim>\<open>ProjectorCacheKey\<close> (constructor, \<^verbatim>\<open>Hash\<close>, \<^verbatim>\<open>operator==\<close>,
  \<^verbatim>\<open>UpdateUniqifier\<close>), \<^verbatim>\<open>Projector::Make\<close>, the two \<^verbatim>\<open>Projector::Evaluate\<close>
  entry points, \<^verbatim>\<open>AllocArrayData\<close>, \<^verbatim>\<open>ValidateEvaluateArgsCommon\<close> and
  \<^verbatim>\<open>ValidateArrayDataCapacity\<close>.

  The collaborators whose code is not part of that file (the LLVM generator, the expression
  validator, the memory pool, the hash functions) are parameters of the model: records of
  functions, one field for each call the file makes. Where the spec says what a missing
  part does (the type ids, \<^verbatim>\<open>BytesForBits\<close>, the equality of schemas, the cache), it
  is a definition, marked as modelled from the spec.
\<close>

subsection \<open>Machine integers and strings\<close>

text \<open>
  \<^verbatim>\<open>int64_t\<close> values are integers; the result of an \<^verbatim>\<open>int64_t\<close> addition or
  multiplication is wrapped into the 64-bit two's complement range by \<open>int64\<close>.
  (Signed overflow is undefined in C++; the model takes the wrap-around of the hardware.)
  \<^verbatim>\<open>size_t\<close> is a 64-bit word, \<^verbatim>\<open>uint32_t\<close> a 32-bit word.
\<close>

type_synonym int64_t = int
type_synonym size_t = "64 word"
type_synonym uint32_t = "32 word"

definition int64 :: "int \<Rightarrow> int64_t" where
  "int64 k = signed_take_bit 63 k"

definition in_int64 :: "int \<Rightarrow> bool" where
  "in_int64 k = (- (2 ^ 63) \<le> k \<and> k < 2 ^ 63)"

text \<open>Decimal printing, as \<^verbatim>\<open>operator<<\<close> of a stream does for an integer.\<close>

function decimal :: "nat \<Rightarrow> string" where
  "decimal n = (if 10 \<le> n then decimal (n div 10) else []) @ [''0123456789'' ! (n mod 10)]"
  by pat_completeness auto
termination
  by (relation "measure (\<lambda>n. n)") auto

declare decimal.simps [simp del]

definition decimal_int :: "int \<Rightarrow> string" where
  "decimal_int k = (if k < 0 then CHR ''-'' # decimal (nat (- k)) else decimal (nat k))"

subsection \<open>Status\<close>

text \<open>
  \<^verbatim>\<open>arrow::Status\<close>: success, the invalid-argument error with its message, or an error
  of any other code (the collaborators return those).
\<close>

datatype Status = OK | Invalid string | OtherError string

fun is_Invalid :: "Status \<Rightarrow> bool" where
  "is_Invalid (Invalid msg) = True"
| "is_Invalid st = False"

text \<open>
  What a call does: it returns a value, or it reads a \<^verbatim>\<open>std::vector\<close> past its
  end (\<^verbatim>\<open>operator[]\<close> does not check its index).
\<close>

datatype 'a outcome = Returns 'a | OutOfBounds

definition vector_at :: "'a list \<Rightarrow> nat \<Rightarrow> 'a option" where
  "vector_at xs i = (if i < length xs then Some (xs ! i) else None)"

subsection \<open>Logical types, fields, buffers\<close>

text \<open>
  Modelled from the spec: the type ids \<^verbatim>\<open>arrow::Type::type\<close> and the predicates
  \<^verbatim>\<open>arrow::is_primitive\<close> and \<^verbatim>\<open>arrow::is_binary_like\<close> are declared outside
  \<^verbatim>\<open>projector.cc\<close>. The spec's classes of logical types are: the single-bit-packed
  boolean (\<open>BOOL\<close>), the other fixed-width numeric types (\<open>NUMERIC\<close> stands for each of
  them), the fixed-width decimal (\<open>DECIMAL\<close>), the variable-length binary and text types
  (\<open>BINARY\<close>, \<open>STRING\<close>), and every other type (\<open>NESTED\<close>: list, map, ...), which is
  unsupported for output.
\<close>

datatype Type = BOOL | NUMERIC | DECIMAL | BINARY | STRING | NESTED

text \<open>
  Modelled from the spec: \<^verbatim>\<open>arrow::is_primitive\<close>, true of the fixed-width numeric type
  ids, the boolean among them.
\<close>

fun is_primitive :: "Type \<Rightarrow> bool" where
  "is_primitive BOOL = True"
| "is_primitive NUMERIC = True"
| "is_primitive t = False"

text \<open>
  Modelled from the spec: \<^verbatim>\<open>arrow::is_binary_like\<close>, true of the variable-length
  binary and text type ids.
\<close>

fun is_binary_like :: "Type \<Rightarrow> bool" where
  "is_binary_like BINARY = True"
| "is_binary_like STRING = True"
| "is_binary_like t = False"

text \<open>
  A \<^verbatim>\<open>DataType\<close> object with the results of the methods the file calls: \<^verbatim>\<open>id()\<close>,
  \<^verbatim>\<open>bit_width()\<close> (of a \<^verbatim>\<open>FixedWidthType\<close>) and \<^verbatim>\<open>ToString()\<close>.
\<close>

record DataType =
  type_id :: Type
  bit_width :: int
  type_ToString :: string

record Field =
  field_name :: string
  field_type :: DataType

text \<open>
  A buffer: its \<^verbatim>\<open>size()\<close>, its \<^verbatim>\<open>capacity()\<close>, whether its dynamic type is
  \<^verbatim>\<open>ResizableBuffer\<close>, and whether its bytes have been set to zero. The pointers in
  \<^verbatim>\<open>ArrayData::buffers\<close> are taken to be non-null: the file dereferences them
  without a check.
\<close>

record Buffer =
  buffer_size :: int64_t
  capacity :: int64_t
  is_resizable :: bool
  zeroed :: bool

record ArrayData =
  data_type :: DataType
  data_length :: int64_t
  buffers :: "Buffer list"

text \<open>
  The memory pool, with the two allocation functions the file calls on it; each returns
  the error status or the new buffer.
\<close>

record MemoryPool =
  AllocateBuffer :: "int64_t \<Rightarrow> Status + Buffer"
  AllocateResizableBuffer :: "int64_t \<Rightarrow> Status + Buffer"

text \<open>
  Modelled from the spec: \<^verbatim>\<open>arrow::bit_util::BytesForBits\<close> is defined outside
  \<^verbatim>\<open>projector.cc\<close>. The spec gives its value as the number of bytes that hold the
  given number of bits, \<open>ceil(bits / 8)\<close>: the whole bytes, and one more for a remainder.
\<close>

definition BytesForBits :: "int64_t \<Rightarrow> int64_t" where
  "BytesForBits bits = bits div 8 + (if bits mod 8 = 0 then 0 else 1)"

subsection \<open>AllocArrayData\<close>

text \<open>
  Each \<^verbatim>\<open>ARROW_ASSIGN_OR_RAISE\<close> returns the allocator's error status, or goes on with
  the buffer. The \<^verbatim>\<open>memset\<close> of a \<open>BOOL\<close> column's data buffer sets \<open>zeroed\<close>.
\<close>

definition AllocArrayData :: "DataType \<Rightarrow> int64_t \<Rightarrow> MemoryPool \<Rightarrow> Status + ArrayData" where
  "AllocArrayData ty num_records pool =
     (let size = BytesForBits num_records in
      case AllocateBuffer pool size of
        Inl st \<Rightarrow> Inl st
      | Inr bitmap_buffer \<Rightarrow>
     (case (if is_binary_like (type_id ty)
            then (let offsets_len = BytesForBits (int64 (int64 (num_records + 1) * 32)) in
                  case AllocateBuffer pool offsets_len of
                    Inl st \<Rightarrow> Inl st
                  | Inr offsets_buffer \<Rightarrow> Inr [bitmap_buffer, offsets_buffer])
            else Inr [bitmap_buffer]) of
        Inl st \<Rightarrow> Inl st
      | Inr bufs \<Rightarrow>
     (case (if is_primitive (type_id ty) \<or> type_id ty = DECIMAL
            then Inr (BytesForBits (int64 (num_records * bit_width ty)))
            else if is_binary_like (type_id ty) then Inr 0
            else Inl (Invalid (''Unsupported output data type '' @ type_ToString ty))) of
        Inl st \<Rightarrow> Inl st
      | Inr data_len \<Rightarrow>
     (case AllocateResizableBuffer pool data_len of
        Inl st \<Rightarrow> Inl st
      | Inr data_buffer \<Rightarrow>
          Inr \<lparr>data_type = ty, data_length = num_records,
               buffers = bufs @ [if type_id ty = BOOL then data_buffer\<lparr>zeroed := True\<rparr>
                                 else data_buffer]\<rparr>))))"

subsection \<open>ValidateArrayDataCapacity\<close>

definition ValidateArrayDataCapacity :: "ArrayData \<Rightarrow> Field \<Rightarrow> int64_t \<Rightarrow> Status outcome" where
  "ValidateArrayDataCapacity array_data field num_records =
     (if length (buffers array_data) < 2
      then Returns (Invalid ''ArrayData must have at least 2 buffers'')
      else
     (case vector_at (buffers array_data) 0 of
        None \<Rightarrow> OutOfBounds
      | Some bitmap \<Rightarrow>
     (let min_bitmap_len = BytesForBits num_records;
          bitmap_len = capacity bitmap
      in
      if bitmap_len < min_bitmap_len
      then Returns (Invalid (''Bitmap buffer too small for '' @ field_name field @
                     '' expected minimum '' @ decimal_int min_bitmap_len @
                     '' actual size '' @ decimal_int bitmap_len))
      else if is_binary_like (type_id (field_type field)) then
       (case vector_at (buffers array_data) 1 of
          None \<Rightarrow> OutOfBounds
        | Some offsets \<Rightarrow>
       (let min_offsets_len = BytesForBits (int64 (int64 (num_records + 1) * 32));
            offsets_len = capacity offsets
        in
        if offsets_len < min_offsets_len
        then Returns (Invalid (''offsets buffer too small for '' @ field_name field @
                       '' minimum required '' @ decimal_int min_offsets_len @
                       '' actual '' @ decimal_int offsets_len))
        else
         (case vector_at (buffers array_data) 2 of
            None \<Rightarrow> OutOfBounds
          | Some data \<Rightarrow>
              if \<not> is_resizable data
              then Returns (Invalid ''data buffer for varlen output vectors must be resizable'')
              else Returns OK)))
      else if is_primitive (type_id (field_type field)) \<or> type_id (field_type field) = DECIMAL then
       (case vector_at (buffers array_data) 1 of
          None \<Rightarrow> OutOfBounds
        | Some data \<Rightarrow>
       (let min_data_len = BytesForBits (int64 (num_records * bit_width (field_type field)));
            data_len = capacity data
        in
        if data_len < min_data_len
        then Returns (Invalid (''Data buffer too small for '' @ field_name field))
        else Returns OK))
      else Returns (Invalid (''Unsupported output data type '' @
                      type_ToString (field_type field))))))"

subsection \<open>Schemas, expressions, configurations\<close>

text \<open>
  Modelled from the spec: the class \<^verbatim>\<open>arrow::Schema\<close> is defined outside
  \<^verbatim>\<open>projector.cc\<close>. The spec's schema is the ordered sequence of (name, logical type)
  of the input columns.
\<close>

type_synonym Schema = "Field list"

text \<open>
  Modelled from the spec: \<^verbatim>\<open>Schema::Equals\<close>, defined outside \<^verbatim>\<open>projector.cc\<close>. The
  spec's equality of schemas is structural: the same names and types in the same order.
  (The second argument \<^verbatim>\<open>true\<close> of the call in \<^verbatim>\<open>operator==\<close> asks to compare
  metadata, which the spec's schema does not have.)
\<close>

definition Schema_Equals :: "Schema \<Rightarrow> Schema \<Rightarrow> bool" where
  "Schema_Equals s other = (s = other)"

text \<open>
  An expression object: the tree itself (opaque), the result of \<^verbatim>\<open>ToString()\<close> and the
  result of \<^verbatim>\<open>result()\<close>.
\<close>

record 'n Expression =
  expr_tree :: 'n
  expr_ToString :: string
  expr_result :: Field

text \<open>
  \<^verbatim>\<open>SelectionVector::Mode\<close> is an enumeration; a mode is the value of its enumerator.
  A configuration is a value of any type \<open>'c\<close> (the spec: opaque, hashable,
  equality-comparable), compared by \<open>=\<close>.
\<close>

type_synonym Mode = nat

text \<open>
  The functions that hash: \<^verbatim>\<open>arrow::internal::hash_combine\<close> at the three types the
  constructor uses it at, \<^verbatim>\<open>Configuration::Hash\<close> and \<^verbatim>\<open>Schema::ToString\<close>.
\<close>

record 'c hashing =
  hash_combine_string :: "size_t \<Rightarrow> string \<Rightarrow> size_t"
  hash_combine_size_t :: "size_t \<Rightarrow> size_t \<Rightarrow> size_t"
  hash_combine_uint32_t :: "size_t \<Rightarrow> uint32_t \<Rightarrow> size_t"
  Configuration_Hash :: "'c \<Rightarrow> size_t"
  Schema_ToString :: "Schema \<Rightarrow> string"

subsection \<open>ProjectorCacheKey\<close>

record 'c ProjectorCacheKey =
  key_schema :: Schema
  key_configuration :: 'c
  key_mode :: Mode
  key_expressions_as_strings :: "string list"
  key_hash_code :: size_t
  key_uniqifier :: uint32_t

text \<open>
  \<^verbatim>\<open>std::string::find\<close>: the position of the first occurrence of the pattern, or
  \<open>None\<close> for \<^verbatim>\<open>npos\<close>.
\<close>

fun string_find_from :: "string \<Rightarrow> string \<Rightarrow> nat \<Rightarrow> nat option" where
  "string_find_from [] pat pos = (if pat = [] then Some pos else None)"
| "string_find_from (c # cs) pat pos =
     (if prefix pat (c # cs) then Some pos else string_find_from cs pat (Suc pos))"

definition string_find :: "string \<Rightarrow> string \<Rightarrow> nat option" where
  "string_find s pat = string_find_from s pat 0"

text \<open>
  \<^verbatim>\<open>UpdateUniqifier\<close>. The first argument is the hash of the calling thread's id,
  \<^verbatim>\<open>std::hash<std::thread::id>()(std::this_thread::get_id())\<close>; the assignment to the
  \<^verbatim>\<open>uint32_t\<close> member truncates.
\<close>

definition UpdateUniqifier :: "size_t \<Rightarrow> string \<Rightarrow> uint32_t \<Rightarrow> uint32_t" where
  "UpdateUniqifier thread_id_hash expr uniqifier =
     (if uniqifier = 0
      then (if string_find expr '' like('' \<noteq> None
            then ucast (thread_id_hash mod 16)
            else uniqifier)
      else uniqifier)"

text \<open>
  The loop of the constructor over \<^verbatim>\<open>expression_vector\<close>; its state is
  (\<^verbatim>\<open>expressions_as_strings_\<close>, \<^verbatim>\<open>result\<close>, \<^verbatim>\<open>uniqifier_\<close>).
\<close>

fun key_loop ::
  "'c hashing \<Rightarrow> size_t \<Rightarrow> 'n Expression list \<Rightarrow> string list \<times> size_t \<times> uint32_t
     \<Rightarrow> string list \<times> size_t \<times> uint32_t" where
  "key_loop h thread_id_hash [] state = state"
| "key_loop h thread_id_hash (expr # rest) (strings, result, uniqifier) =
     (let expr_as_string = expr_ToString expr in
      key_loop h thread_id_hash rest
        (strings @ [expr_as_string],
         hash_combine_string h result expr_as_string,
         UpdateUniqifier thread_id_hash expr_as_string uniqifier))"

definition kSeedValue :: size_t where
  "kSeedValue = 4"

text \<open>The constructor.\<close>

definition new_ProjectorCacheKey ::
  "'c hashing \<Rightarrow> size_t \<Rightarrow> Schema \<Rightarrow> 'c \<Rightarrow> 'n Expression list \<Rightarrow> Mode \<Rightarrow> 'c ProjectorCacheKey" where
  "new_ProjectorCacheKey h thread_id_hash schema configuration expression_vector mode =
     (case key_loop h thread_id_hash expression_vector ([], kSeedValue, 0) of
        (strings, result, uniqifier) \<Rightarrow>
          (let result = hash_combine_size_t h result (of_nat mode);
               result = hash_combine_size_t h result (Configuration_Hash h configuration);
               result = hash_combine_string h result (Schema_ToString h schema);
               result = hash_combine_uint32_t h result uniqifier
           in \<lparr>key_schema = schema, key_configuration = configuration, key_mode = mode,
                key_expressions_as_strings = strings, key_hash_code = result,
                key_uniqifier = uniqifier\<rparr>))"

definition Hash :: "'c ProjectorCacheKey \<Rightarrow> size_t" where
  "Hash this = key_hash_code this"

text \<open>
  \<^verbatim>\<open>operator==\<close>, with the list of the members it has compared when it returns.
\<close>

datatype member = Schema_member | Configuration_member | Expressions_member
  | Mode_member | Uniqifier_member

definition operator_eq_run :: "'c ProjectorCacheKey \<Rightarrow> 'c ProjectorCacheKey \<Rightarrow> member list \<times> bool" where
  "operator_eq_run this other =
     (if \<not> Schema_Equals (key_schema this) (key_schema other)
      then ([Schema_member], False)
      else if key_configuration this \<noteq> key_configuration other
      then ([Schema_member, Configuration_member], False)
      else if key_expressions_as_strings this \<noteq> key_expressions_as_strings other
      then ([Schema_member, Configuration_member, Expressions_member], False)
      else if key_mode this \<noteq> key_mode other
      then ([Schema_member, Configuration_member, Expressions_member, Mode_member], False)
      else if key_uniqifier this \<noteq> key_uniqifier other
      then ([Schema_member, Configuration_member, Expressions_member, Mode_member,
             Uniqifier_member], False)
      else ([Schema_member, Configuration_member, Expressions_member, Mode_member,
             Uniqifier_member], True))"

definition operator_eq :: "'c ProjectorCacheKey \<Rightarrow> 'c ProjectorCacheKey \<Rightarrow> bool" where
  "operator_eq this other = snd (operator_eq_run this other)"

definition operator_ne :: "'c ProjectorCacheKey \<Rightarrow> 'c ProjectorCacheKey \<Rightarrow> bool" where
  "operator_ne this other = (\<not> operator_eq this other)"

definition compared_members :: "'c ProjectorCacheKey \<Rightarrow> 'c ProjectorCacheKey \<Rightarrow> member list" where
  "compared_members this other = fst (operator_eq_run this other)"

subsection \<open>The projector, the cache and the collaborators\<close>

record RecordBatch =
  batch_schema :: Schema
  num_rows :: int64_t

record SelectionVector =
  GetNumSlots :: int64_t

record ('c, 'g) Projector =
  llvm_generator :: 'g
  proj_schema :: Schema
  output_fields :: "Field list"
  proj_configuration :: 'c

text \<open>
  The LLVM generator (a value of any type \<open>'g\<close>) and the expression validator, with the
  calls the file makes: \<^verbatim>\<open>LLVMGenerator::Make\<close>, \<^verbatim>\<open>ExprValidator::Validate\<close> (of the
  validator built from the generator's types and the schema), \<^verbatim>\<open>LLVMGenerator::Build\<close>
  and \<^verbatim>\<open>LLVMGenerator::Execute\<close>, which writes the output buffers.
\<close>

record ('c, 'g, 'n) backend =
  LLVMGenerator_Make :: "'c \<Rightarrow> Status \<times> 'g"
  ExprValidator_Validate :: "'g \<Rightarrow> Schema \<Rightarrow> 'n Expression \<Rightarrow> Status"
  LLVMGenerator_Build :: "'g \<Rightarrow> 'n Expression list \<Rightarrow> Mode \<Rightarrow> Status \<times> 'g"
  LLVMGenerator_Execute ::
    "'g \<Rightarrow> RecordBatch \<Rightarrow> SelectionVector option \<Rightarrow> ArrayData list \<Rightarrow> Status \<times> ArrayData list"

text \<open>The calls a function has made on the cache and the collaborators, in order.\<close>

datatype 'n call =
    New_ProjectorCacheKey
  | Cache_GetModule
  | Call_LLVMGenerator_Make
  | Call_Validate "'n Expression"
  | Call_Build
  | Cache_PutModule
  | Call_Execute

text \<open>
  A \<^verbatim>\<open>std::shared_ptr<Projector>\<close> is the address of the projector: its index in the
  list of the projectors allocated so far. \<^verbatim>\<open>ValueCacheObject\<close> pairs it with the
  build time.
\<close>

record ValueCacheObject =
  cached_module :: nat
  build_cost :: int

text \<open>
  Modelled from the spec: the class template \<^verbatim>\<open>Cache\<close> is defined outside
  \<^verbatim>\<open>projector.cc\<close>. The spec's cache is a keyed store of (key, value) entries;
  eviction is left to the store and is not modelled.
\<close>

type_synonym 'c Cache = "('c ProjectorCacheKey \<times> ValueCacheObject) list"

text \<open>
  Modelled from the spec: \<^verbatim>\<open>Cache::GetModule\<close>, the spec's \<open>get(key)\<close>. It gives the
  projector stored under a key equal to the given one, or a null pointer (\<open>None\<close>) when
  there is none.
\<close>

definition GetModule :: "'c Cache \<Rightarrow> 'c ProjectorCacheKey \<Rightarrow> nat option" where
  "GetModule cache cache_key =
     (case find (\<lambda>entry. operator_eq (fst entry) cache_key) cache of
        None \<Rightarrow> None
      | Some entry \<Rightarrow> Some (cached_module (snd entry)))"

text \<open>
  Modelled from the spec: \<^verbatim>\<open>Cache::PutModule\<close>, the spec's \<open>put(key, value)\<close>, where
  the last write under a key wins.
\<close>

definition PutModule :: "'c Cache \<Rightarrow> 'c ProjectorCacheKey \<Rightarrow> ValueCacheObject \<Rightarrow> 'c Cache" where
  "PutModule cache cache_key v =
     (cache_key, v) # filter (\<lambda>entry. \<not> operator_eq (fst entry) cache_key) cache"

text \<open>
  The state \<^verbatim>\<open>Make\<close> works on: the static cache and the projectors allocated so far.
\<close>

record ('c, 'g) memory =
  projector_cache :: "'c Cache"
  projectors :: "('c, 'g) Projector list"

subsection \<open>Projector::Make\<close>

text \<open>
  What a call of \<^verbatim>\<open>Make\<close> gives: the status, the pointer written to
  \<^verbatim>\<open>*projector\<close> (if one was written), the state after the call and the calls made.
\<close>

record ('c, 'g, 'n) made =
  made_status :: Status
  made_projector :: "nat option"
  made_memory :: "('c, 'g) memory"
  made_calls :: "'n call list"

text \<open>The validation loop: it returns at the first status that is not OK.\<close>

fun validate_exprs ::
  "('c, 'g, 'n) backend \<Rightarrow> 'g \<Rightarrow> Schema \<Rightarrow> 'n Expression list \<Rightarrow> Status \<times> 'n call list" where
  "validate_exprs b gen schema [] = (OK, [])"
| "validate_exprs b gen schema (expr # rest) =
     (let st = ExprValidator_Validate b gen schema expr in
      if st \<noteq> OK then (st, [Call_Validate expr])
      else (case validate_exprs b gen schema rest of
              (st', cs) \<Rightarrow> (st', Call_Validate expr # cs)))"

text \<open>
  \<^verbatim>\<open>Make\<close> (the overload with all five parameters; the other two call it). A null
  \<^verbatim>\<open>schema\<close> or \<^verbatim>\<open>configuration\<close> is \<open>None\<close>. \<open>elapsed\<close> is the build time the
  clock gives.
\<close>

definition Make ::
  "'c hashing \<Rightarrow> ('c, 'g, 'n) backend \<Rightarrow> size_t \<Rightarrow> int \<Rightarrow>
   Schema option \<Rightarrow> 'n Expression list \<Rightarrow> Mode \<Rightarrow> 'c option \<Rightarrow>
   ('c, 'g) memory \<Rightarrow> ('c, 'g, 'n) made" where
  "Make h b thread_id_hash elapsed schema exprs selection_vector_mode configuration mem =
     (case schema of
        None \<Rightarrow> \<lparr>made_status = Invalid ''Schema cannot be null'', made_projector = None,
                 made_memory = mem, made_calls = []\<rparr>
      | Some schema \<Rightarrow>
     (if exprs = []
      then \<lparr>made_status = Invalid ''Expressions cannot be empty'', made_projector = None,
            made_memory = mem, made_calls = []\<rparr>
      else
     (case configuration of
        None \<Rightarrow> \<lparr>made_status = Invalid ''Configuration cannot be null'', made_projector = None,
                 made_memory = mem, made_calls = []\<rparr>
      | Some configuration \<Rightarrow>
     (let cache_key = new_ProjectorCacheKey h thread_id_hash schema configuration exprs
                        selection_vector_mode
      in
      case GetModule (projector_cache mem) cache_key of
        Some cached_projector \<Rightarrow>
          \<lparr>made_status = OK, made_projector = Some cached_projector,
           made_memory = mem, made_calls = [New_ProjectorCacheKey, Cache_GetModule]\<rparr>
      | None \<Rightarrow>
     (case LLVMGenerator_Make b configuration of
        (st1, llvm_gen) \<Rightarrow>
      if st1 \<noteq> OK
      then \<lparr>made_status = st1, made_projector = None, made_memory = mem,
            made_calls = [New_ProjectorCacheKey, Cache_GetModule, Call_LLVMGenerator_Make]\<rparr>
      else
     (case validate_exprs b llvm_gen schema exprs of
        (st2, validations) \<Rightarrow>
      if st2 \<noteq> OK
      then \<lparr>made_status = st2, made_projector = None, made_memory = mem,
            made_calls = [New_ProjectorCacheKey, Cache_GetModule, Call_LLVMGenerator_Make]
                           @ validations\<rparr>
      else
     (case LLVMGenerator_Build b llvm_gen exprs selection_vector_mode of
        (st3, built_gen) \<Rightarrow>
      if st3 \<noteq> OK
      then \<lparr>made_status = st3, made_projector = None, made_memory = mem,
            made_calls = [New_ProjectorCacheKey, Cache_GetModule, Call_LLVMGenerator_Make]
                           @ validations @ [Call_Build]\<rparr>
      else
     (let output_fields = map expr_result exprs;
          projector = length (projectors mem);
          value_cache = \<lparr>cached_module = projector, build_cost = elapsed\<rparr>
      in
      \<lparr>made_status = OK, made_projector = Some projector,
       made_memory =
         \<lparr>projector_cache = PutModule (projector_cache mem) cache_key value_cache,
          projectors = projectors mem @
            [\<lparr>llvm_generator = built_gen, proj_schema = schema,
              output_fields = output_fields, proj_configuration = configuration\<rparr>]\<rparr>,
       made_calls = [New_ProjectorCacheKey, Cache_GetModule, Call_LLVMGenerator_Make]
                      @ validations @ [Call_Build, Cache_PutModule]\<rparr>))))))))"

text \<open>
  The other two overloads. The enumerator \<^verbatim>\<open>SelectionVector::Mode::MODE_NONE\<close> and
  the result of \<^verbatim>\<open>ConfigurationBuilder::DefaultConfiguration()\<close> are parameters.
\<close>

definition Make_with_configuration ::
  "'c hashing \<Rightarrow> ('c, 'g, 'n) backend \<Rightarrow> size_t \<Rightarrow> int \<Rightarrow> Mode \<Rightarrow>
   Schema option \<Rightarrow> 'n Expression list \<Rightarrow> 'c option \<Rightarrow>
   ('c, 'g) memory \<Rightarrow> ('c, 'g, 'n) made" where
  "Make_with_configuration h b thread_id_hash elapsed MODE_NONE schema exprs configuration mem =
     Make h b thread_id_hash elapsed schema exprs MODE_NONE configuration mem"

definition Make_default ::
  "'c hashing \<Rightarrow> ('c, 'g, 'n) backend \<Rightarrow> size_t \<Rightarrow> int \<Rightarrow> Mode \<Rightarrow> 'c option \<Rightarrow>
   Schema option \<Rightarrow> 'n Expression list \<Rightarrow>
   ('c, 'g) memory \<Rightarrow> ('c, 'g, 'n) made" where
  "Make_default h b thread_id_hash elapsed MODE_NONE DefaultConfiguration schema exprs mem =
     Make h b thread_id_hash elapsed schema exprs MODE_NONE DefaultConfiguration mem"

subsection \<open>Projector::Evaluate\<close>

definition ValidateEvaluateArgsCommon :: "('c, 'g) Projector \<Rightarrow> RecordBatch \<Rightarrow> Status" where
  "ValidateEvaluateArgsCommon this batch =
     (if \<not> Schema_Equals (batch_schema batch) (proj_schema this)
      then Invalid ''Schema in RecordBatch must match schema in Make()''
      else if num_rows batch = 0
      then Invalid ''RecordBatch must be non-empty.''
      else OK)"

text \<open>
  The loop of the first entry point over \<^verbatim>\<open>output_data_vecs\<close>, with its counter
  \<^verbatim>\<open>idx\<close>. A null \<^verbatim>\<open>ArrayDataPtr\<close> is \<open>None\<close>.
\<close>

fun validate_output_data_vecs ::
  "Field list \<Rightarrow> nat \<Rightarrow> ArrayData option list \<Rightarrow> int64_t \<Rightarrow> Status outcome" where
  "validate_output_data_vecs fs idx [] rows = Returns OK"
| "validate_output_data_vecs fs idx (array_data # rest) rows =
     (case vector_at fs idx of
        None \<Rightarrow> OutOfBounds
      | Some field \<Rightarrow>
     (case array_data of
        None \<Rightarrow> Returns (Invalid (''array for output field '' @ field_name field @ ''is null.''))
      | Some ad \<Rightarrow>
     (case ValidateArrayDataCapacity ad field rows of
        OutOfBounds \<Rightarrow> OutOfBounds
      | Returns st \<Rightarrow>
          if st \<noteq> OK then Returns st
          else validate_output_data_vecs fs (idx + 1) rest rows)))"

text \<open>
  The entry point with buffers of the caller. It gives the status (or the read out of
  bounds), the calls made and the buffers after the call.
\<close>

definition Evaluate ::
  "('c, 'g, 'n) backend \<Rightarrow> ('c, 'g) Projector \<Rightarrow> RecordBatch \<Rightarrow> SelectionVector option \<Rightarrow>
   ArrayData option list \<Rightarrow> Status outcome \<times> 'n call list \<times> ArrayData option list" where
  "Evaluate b this batch selection_vector output_data_vecs =
     (let st = ValidateEvaluateArgsCommon this batch in
      if st \<noteq> OK then (Returns st, [], output_data_vecs)
      else if length output_data_vecs \<noteq> length (output_fields this)
      then (Returns (Invalid (''number of buffers for output_data_vecs is '' @
                       decimal (length output_data_vecs) @ '', expected '' @
                       decimal (length (output_fields this)))),
            [], output_data_vecs)
      else
     (let rows = (case selection_vector of
                    None \<Rightarrow> num_rows batch
                  | Some sv \<Rightarrow> GetNumSlots sv)
      in
      case validate_output_data_vecs (output_fields this) 0 output_data_vecs rows of
        OutOfBounds \<Rightarrow> (OutOfBounds, [], output_data_vecs)
      | Returns st \<Rightarrow>
          if st \<noteq> OK then (Returns st, [], output_data_vecs)
          else (case LLVMGenerator_Execute b (llvm_generator this) batch selection_vector
                       (map the output_data_vecs) of
                  (st', written) \<Rightarrow> (Returns st', [Call_Execute], map Some written))))"

definition Evaluate_all_rows ::
  "('c, 'g, 'n) backend \<Rightarrow> ('c, 'g) Projector \<Rightarrow> RecordBatch \<Rightarrow>
   ArrayData option list \<Rightarrow> Status outcome \<times> 'n call list \<times> ArrayData option list" where
  "Evaluate_all_rows b this batch output_data_vecs = Evaluate b this batch None output_data_vecs"

text \<open>The loop of the second entry point, which allocates the output of each field.\<close>

fun alloc_output_data_vecs ::
  "Field list \<Rightarrow> int64_t \<Rightarrow> MemoryPool \<Rightarrow> Status + ArrayData list" where
  "alloc_output_data_vecs [] rows pool = Inr []"
| "alloc_output_data_vecs (field # rest) rows pool =
     (case AllocArrayData (field_type field) rows pool of
        Inl st \<Rightarrow> Inl st
      | Inr output_data \<Rightarrow>
     (case alloc_output_data_vecs rest rows pool of
        Inl st \<Rightarrow> Inl st
      | Inr vecs \<Rightarrow> Inr (output_data # vecs)))"

text \<open>
  The entry point that allocates from a pool. A null \<^verbatim>\<open>pool\<close> or \<^verbatim>\<open>output\<close> is
  \<open>None\<close>; \<open>Some xs\<close> is an output vector that holds \<open>xs\<close>. It gives the status, the calls
  made and the output vector after the call.
\<close>

definition Evaluate_pool ::
  "('c, 'g, 'n) backend \<Rightarrow> ('c, 'g) Projector \<Rightarrow> RecordBatch \<Rightarrow> SelectionVector option \<Rightarrow>
   MemoryPool option \<Rightarrow> ArrayData list option \<Rightarrow> Status \<times> 'n call list \<times> ArrayData list option" where
  "Evaluate_pool b this batch selection_vector pool output =
     (let st = ValidateEvaluateArgsCommon this batch in
      if st \<noteq> OK then (st, [], output)
      else
     (case output of
        None \<Rightarrow> (Invalid ''Output must be non-null.'', [], output)
      | Some old_output \<Rightarrow>
     (case pool of
        None \<Rightarrow> (Invalid ''Memory pool must be non-null.'', [], output)
      | Some pool \<Rightarrow>
     (let rows = (case selection_vector of
                    None \<Rightarrow> num_rows batch
                  | Some sv \<Rightarrow> GetNumSlots sv)
      in
      case alloc_output_data_vecs (output_fields this) rows pool of
        Inl st \<Rightarrow> (st, [], output)
      | Inr output_data_vecs \<Rightarrow>
     (case LLVMGenerator_Execute b (llvm_generator this) batch selection_vector
             output_data_vecs of
        (st', written) \<Rightarrow>
          if st' \<noteq> OK then (st', [Call_Execute], output)
          else (OK, [Call_Execute], Some written))))))"

definition Evaluate_pool_all_rows ::
  "('c, 'g, 'n) backend \<Rightarrow> ('c, 'g) Projector \<Rightarrow> RecordBatch \<Rightarrow>
   MemoryPool option \<Rightarrow> ArrayData list option \<Rightarrow> Status \<times> 'n call list \<times> ArrayData list option" where
  "Evaluate_pool_all_rows b this batch pool output = Evaluate_pool b this batch None pool output"

subsection \<open>Example inputs\<close>

text \<open>
  A pool that always allocates a buffer of the size asked for, two fields, and a buffer
  of a given capacity.
\<close>

definition example_pool :: MemoryPool where
  "example_pool =
     \<lparr>AllocateBuffer = (\<lambda>len. Inr \<lparr>buffer_size = len, capacity = len,
                                        is_resizable = False, zeroed = False\<rparr>),
      AllocateResizableBuffer = (\<lambda>len. Inr \<lparr>buffer_size = len, capacity = len,
                                        is_resizable = True, zeroed = False\<rparr>)\<rparr>"

definition int32_field :: Field where
  "int32_field = \<lparr>field_name = ''total'',
                   field_type = \<lparr>type_id = NUMERIC, bit_width = 32, type_ToString = ''int32''\<rparr>\<rparr>"

definition utf8_field :: Field where
  "utf8_field = \<lparr>field_name = ''label'',
                  field_type = \<lparr>type_id = STRING, bit_width = 0, type_ToString = ''string''\<rparr>\<rparr>"

definition buffer_of :: "int64_t \<Rightarrow> bool \<Rightarrow> Buffer" where
  "buffer_of cap resizable =
     \<lparr>buffer_size = cap, capacity = cap, is_resizable = resizable, zeroed = False\<rparr>"

text \<open>Hash functions, two expressions and the key built from them.\<close>

definition example_hashing :: "nat hashing" where
  "example_hashing =
     \<lparr>hash_combine_string = (\<lambda>seed s. seed * 31 + of_nat (length s)),
      hash_combine_size_t = (\<lambda>seed v. seed * 31 + v),
      hash_combine_uint32_t = (\<lambda>seed v. seed * 31 + ucast v),
      Configuration_Hash = of_nat,
      Schema_ToString = (\<lambda>s. concat (map field_name s))\<rparr>"

definition like_expr :: "nat Expression" where
  "like_expr =
     \<lparr>expr_tree = 1,
      expr_ToString = ''bool like((string) label, (const string) ab%)'',
      expr_result = \<lparr>field_name = ''matches'',
                      field_type = \<lparr>type_id = BOOL, bit_width = 1, type_ToString = ''bool''\<rparr>\<rparr>\<rparr>"

definition add_expr :: "nat Expression" where
  "add_expr =
     \<lparr>expr_tree = 2,
      expr_ToString = ''int32 add((int32) total, (const int32) 1)'',
      expr_result = int32_field\<rparr>"

definition example_key :: "size_t \<Rightarrow> nat Expression list \<Rightarrow> Mode \<Rightarrow> nat ProjectorCacheKey" where
  "example_key thread_id_hash exprs mode =
     new_ProjectorCacheKey example_hashing thread_id_hash [int32_field, utf8_field] 0 exprs mode"

text \<open>A backend, an expression its validator refuses, and the state before any build.\<close>

definition example_backend :: "(nat, nat, nat) backend" where
  "example_backend =
     \<lparr>LLVMGenerator_Make = (\<lambda>c. (OK, c)),
      ExprValidator_Validate =
        (\<lambda>gen schema e. if expr_tree e = 0 then OtherError ''invalid expression'' else OK),
      LLVMGenerator_Build = (\<lambda>gen es mode. (OK, gen + length es)),
      LLVMGenerator_Execute = (\<lambda>gen batch sv vecs. (OK, vecs))\<rparr>"

definition empty_memory :: "(nat, nat) memory" where
  "empty_memory = \<lparr>projector_cache = [], projectors = []\<rparr>"

definition bad_expr :: "nat Expression" where
  "bad_expr =
     \<lparr>expr_tree = 0,
      expr_ToString = ''int32 add((int32) total, (string) label)'',
      expr_result = int32_field\<rparr>"

text \<open>A projector with two output fields, and a column of ten rows.\<close>

definition example_projector :: "(nat, nat) Projector" where
  "example_projector =
     \<lparr>llvm_generator = 2, proj_schema = [int32_field, utf8_field],
      output_fields = [int32_field, utf8_field], proj_configuration = 0\<rparr>"

definition column :: "Field \<Rightarrow> Buffer list \<Rightarrow> ArrayData" where
  "column field bufs = \<lparr>data_type = field_type field, data_length = 10, buffers = bufs\<rparr>"

text \<open>A field of a 128-bit decimal type.\<close>

definition decimal128_field :: Field where
  "decimal128_field =
     \<lparr>field_name = ''amount'',
      field_type = \<lparr>type_id = DECIMAL, bit_width = 128, type_ToString = ''decimal128''\<rparr>\<rparr>"

section \<open>Properties\<close>

subsection \<open>Arithmetic and vector access\<close>

lemma BytesForBits_ceiling: "BytesForBits bits = \<lceil>real_of_int bits / 8\<rceil>"
proof -
  have "\<lceil>real_of_int bits / 8\<rceil> = - (- bits div 8)"
    using ceiling_divide_eq_div [of bits 8] by simp
  also have "\<dots> = bits div 8 + (if bits mod 8 = 0 then 0 else 1)"
    by presburger
  finally show ?thesis by (simp add: BytesForBits_def)
qed

lemma int64_id: "in_int64 k \<Longrightarrow> int64 k = k"
  by (simp add: int64_def in_int64_def signed_take_bit_int_eq_self)

lemma in_int64_times_32: "in_int64 (k * 32) \<Longrightarrow> in_int64 k"
  by (simp add: in_int64_def)

lemma offsets_wrap: "in_int64 ((n + 1) * 32) \<Longrightarrow> int64 (int64 (n + 1) * 32) = (n + 1) * 32"
  using in_int64_times_32 [of "n + 1"] by (simp add: int64_id)

lemma vector_at_Nil [simp]: "vector_at [] i = None"
  by (simp add: vector_at_def)

lemma vector_at_Cons_0 [simp]: "vector_at (x # xs) 0 = Some x"
  by (simp add: vector_at_def)

lemma vector_at_Cons_Suc [simp]: "vector_at (x # xs) (Suc i) = vector_at xs i"
  by (simp add: vector_at_def)

lemma vector_at_Cons_numeral [simp]:
  "vector_at (x # xs) (numeral k) = vector_at xs (pred_numeral k)"
  by (simp add: vector_at_def)

subsection \<open>Buffer shapes\<close>

text \<open>The validator on a column of a variable-length type with three buffers or more.\<close>

lemma Validate_binary_like:
  assumes "is_binary_like (type_id (field_type field))"
      and "buffers ad = b0 # b1 # b2 # others"
  shows "ValidateArrayDataCapacity ad field n = Returns OK \<longleftrightarrow>
           BytesForBits n \<le> capacity b0 \<and>
           BytesForBits (int64 (int64 (n + 1) * 32)) \<le> capacity b1 \<and> is_resizable b2"
  using assms by (auto simp: ValidateArrayDataCapacity_def Let_def)

lemma Validate_fixed_width:
  assumes "\<not> is_binary_like (type_id (field_type field))"
      and "is_primitive (type_id (field_type field)) \<or> type_id (field_type field) = DECIMAL"
      and "buffers ad = b0 # b1 # others"
  shows "ValidateArrayDataCapacity ad field n = Returns OK \<longleftrightarrow>
           BytesForBits n \<le> capacity b0 \<and>
           BytesForBits (int64 (n * bit_width (field_type field))) \<le> capacity b1"
  using assms by (auto simp: ValidateArrayDataCapacity_def Let_def)

lemma Alloc_binary_like:
  assumes "is_binary_like (type_id ty)"
      and "AllocArrayData ty n pool = Inr planned"
  shows "\<exists>bitmap offsets data.
           AllocateBuffer pool (BytesForBits n) = Inr bitmap \<and>
           AllocateBuffer pool (BytesForBits (int64 (int64 (n + 1) * 32))) = Inr offsets \<and>
           AllocateResizableBuffer pool 0 = Inr data \<and>
           buffers planned = [bitmap, offsets, data]"
proof -
  from assms(1) have "\<not> is_primitive (type_id ty)" "type_id ty \<noteq> DECIMAL" "type_id ty \<noteq> BOOL"
    by (cases "type_id ty"; simp)+
  with assms show ?thesis
    by (auto simp: AllocArrayData_def Let_def split: sum.splits)
qed

lemma Alloc_fixed_width:
  assumes "\<not> is_binary_like (type_id ty)"
      and "AllocArrayData ty n pool = Inr planned"
  shows "(is_primitive (type_id ty) \<or> type_id ty = DECIMAL) \<and>
         (\<exists>bitmap data.
           AllocateBuffer pool (BytesForBits n) = Inr bitmap \<and>
           AllocateResizableBuffer pool (BytesForBits (int64 (n * bit_width ty))) = Inr data \<and>
           map buffer_size (buffers planned) = [buffer_size bitmap, buffer_size data])"
  using assms
  by (auto simp: AllocArrayData_def Let_def split: sum.splits if_splits)

lemma Alloc_bitmap:
  assumes "AllocArrayData ty n pool = Inr planned"
  shows "\<exists>bitmap. AllocateBuffer pool (BytesForBits n) = Inr bitmap \<and>
           buffers planned ! 0 = bitmap"
  using assms
  by (auto simp: AllocArrayData_def Let_def split: sum.splits if_splits)

lemma Validate_bitmap:
  assumes "buffers ad = bitmap # others"
      and "ValidateArrayDataCapacity ad field n = Returns OK"
  shows "BytesForBits n \<le> capacity bitmap"
  using assms
  by (auto simp: ValidateArrayDataCapacity_def Let_def split: if_splits option.splits)

lemma Alloc_returns:
  assumes "\<forall>len. \<exists>buf. AllocateBuffer pool len = Inr buf"
      and "\<forall>len. \<exists>buf. AllocateResizableBuffer pool len = Inr buf"
      and "is_binary_like (type_id ty) \<or> is_primitive (type_id ty) \<or> type_id ty = DECIMAL"
  shows "\<exists>column. AllocArrayData ty n pool = Inr column"
proof -
  obtain bitmap where b: "AllocateBuffer pool (BytesForBits n) = Inr bitmap"
    using assms(1) by blast
  obtain offsets where
    o: "AllocateBuffer pool (BytesForBits (int64 (int64 (n + 1) * 32))) = Inr offsets"
    using assms(1) by blast
  obtain data where d: "AllocateResizableBuffer pool
      (if is_primitive (type_id ty) \<or> type_id ty = DECIMAL
       then BytesForBits (int64 (n * bit_width ty)) else 0) = Inr data"
    using assms(2) by blast
  from assms(3) b o d show ?thesis
    by (auto simp: AllocArrayData_def Let_def)
qed

text \<open>
  C1. The planner \<open>AllocArrayData\<close> and the validator \<open>ValidateArrayDataCapacity\<close> use
  the same minimum sizes. For a pool that hands out buffers of the size asked for, a
  field and a row count \<open>n\<close>:
  \<^item> for every type and every \<open>n\<close>, the planner asks for \<open>ceil(n / 8)\<close> bytes of
    bitmap, and the validator accepts no bitmap of a smaller capacity;
  \<^item> for a supported type, the planner returns a column whenever the pool returns the
    buffers;
  \<^item> for a variable-length (binary-like) type, where \<open>(n + 1) * 32\<close> is an
    \<^verbatim>\<open>int64_t\<close>, the planner asks for \<open>ceil(n / 8)\<close> bytes of bitmap,
    \<open>ceil((n + 1) * 32 / 8)\<close> bytes of offsets and 0 bytes of data, and the validator
    accepts three buffers exactly when the first two have at least those capacities and
    the third is resizable;
  \<^item> for a fixed-width type of bit width \<open>w\<close>, where \<open>n * w\<close> is an \<^verbatim>\<open>int64_t\<close>,
    the planner asks for \<open>ceil(n / 8)\<close> bytes of bitmap and \<open>ceil(n * w / 8)\<close> bytes
    of data, and the validator accepts two buffers exactly when they have at least those
    capacities;
  \<^item> for every type and every \<open>n\<close>, the validator's minimum capacities are the sizes
    of the buffers the planner allocates.

  Where \<open>(n + 1) * 32\<close> or \<open>n * w\<close> is not an \<^verbatim>\<open>int64_t\<close>, the product wraps
  around and the two formulas fail: at \<open>n = 2 ^ 59 - 1\<close>, and at \<open>n = 2 ^ 56\<close> with
  a 128-bit decimal.
\<close>

theorem planner_and_validator_minimum_sizes:
  fixes n :: int64_t and field :: Field and pool :: MemoryPool
  defines "ty \<equiv> field_type field"
  assumes pool:
    "\<And>len b. AllocateBuffer pool len = Inr b \<Longrightarrow> buffer_size b = len"
    "\<And>len b. AllocateResizableBuffer pool len = Inr b \<Longrightarrow> buffer_size b = len"
  shows
    "(AllocArrayData ty n pool = Inr planned \<longrightarrow>
        buffer_size (buffers planned ! 0) = \<lceil>real_of_int n / 8\<rceil>) \<and>
     (buffers supplied = fst_buf # rest_bufs \<and>
      ValidateArrayDataCapacity supplied field n = Returns OK \<longrightarrow>
        \<lceil>real_of_int n / 8\<rceil> \<le> capacity fst_buf) \<and>
     ((\<forall>len. \<exists>buf. AllocateBuffer pool len = Inr buf) \<and>
      (\<forall>len. \<exists>buf. AllocateResizableBuffer pool len = Inr buf) \<and>
      (is_binary_like (type_id ty) \<or> is_primitive (type_id ty) \<or> type_id ty = DECIMAL) \<longrightarrow>
        (\<exists>column. AllocArrayData ty n pool = Inr column)) \<and>
     (is_binary_like (type_id ty) \<and> in_int64 ((n + 1) * 32) \<longrightarrow>
        (AllocArrayData ty n pool = Inr planned \<longrightarrow>
           map buffer_size (buffers planned) =
             [\<lceil>real_of_int n / 8\<rceil>, \<lceil>real_of_int ((n + 1) * 32) / 8\<rceil>, 0]) \<and>
        (buffers supplied = fst_buf # snd_buf # thd_buf # others \<longrightarrow>
           (ValidateArrayDataCapacity supplied field n = Returns OK \<longleftrightarrow>
              \<lceil>real_of_int n / 8\<rceil> \<le> capacity fst_buf \<and>
              \<lceil>real_of_int ((n + 1) * 32) / 8\<rceil> \<le> capacity snd_buf \<and> is_resizable thd_buf))) \<and>
     ((is_primitive (type_id ty) \<or> type_id ty = DECIMAL) \<and> in_int64 (n * bit_width ty) \<longrightarrow>
        (AllocArrayData ty n pool = Inr planned \<longrightarrow>
           map buffer_size (buffers planned) =
             [\<lceil>real_of_int n / 8\<rceil>, \<lceil>real_of_int (n * bit_width ty) / 8\<rceil>]) \<and>
        (buffers supplied = fst_buf # snd_buf # others \<longrightarrow>
           (ValidateArrayDataCapacity supplied field n = Returns OK \<longleftrightarrow>
              \<lceil>real_of_int n / 8\<rceil> \<le> capacity fst_buf \<and>
              \<lceil>real_of_int (n * bit_width ty) / 8\<rceil> \<le> capacity snd_buf))) \<and>
     (AllocArrayData ty n pool = Inr planned \<and> buffers supplied = fst_buf # snd_buf # others \<longrightarrow>
        (ValidateArrayDataCapacity supplied field n = Returns OK \<longleftrightarrow>
           buffer_size (buffers planned ! 0) \<le> capacity fst_buf \<and>
           buffer_size (buffers planned ! 1) \<le> capacity snd_buf \<and>
           (is_binary_like (type_id ty) \<longrightarrow> others \<noteq> [] \<and> is_resizable (hd others))))"
proof (intro conjI impI)
  assume "AllocArrayData ty n pool = Inr planned"
  from Alloc_bitmap [OF this] pool(1)
  show "buffer_size (buffers planned ! 0) = \<lceil>real_of_int n / 8\<rceil>"
    by (auto simp: BytesForBits_ceiling)
next
  assume "buffers supplied = fst_buf # rest_bufs \<and>
      ValidateArrayDataCapacity supplied field n = Returns OK"
  then show "\<lceil>real_of_int n / 8\<rceil> \<le> capacity fst_buf"
    using Validate_bitmap [of supplied fst_buf rest_bufs field n]
    by (simp add: BytesForBits_ceiling)
next
  assume "(\<forall>len. \<exists>buf. AllocateBuffer pool len = Inr buf) \<and>
      (\<forall>len. \<exists>buf. AllocateResizableBuffer pool len = Inr buf) \<and>
      (is_binary_like (type_id ty) \<or> is_primitive (type_id ty) \<or> type_id ty = DECIMAL)"
  then show "\<exists>column. AllocArrayData ty n pool = Inr column"
    using Alloc_returns [of pool ty n] by blast
next
  assume bin: "is_binary_like (type_id ty) \<and> in_int64 ((n + 1) * 32)"
  { assume "AllocArrayData ty n pool = Inr planned"
    with bin obtain bitmap offsets data where
      "AllocateBuffer pool (BytesForBits n) = Inr bitmap"
      "AllocateBuffer pool (BytesForBits (int64 (int64 (n + 1) * 32))) = Inr offsets"
      "AllocateResizableBuffer pool 0 = Inr data"
      "buffers planned = [bitmap, offsets, data]"
      using Alloc_binary_like by blast
    with bin pool
    show "map buffer_size (buffers planned) =
            [\<lceil>real_of_int n / 8\<rceil>, \<lceil>real_of_int ((n + 1) * 32) / 8\<rceil>, 0]"
      by (simp add: offsets_wrap BytesForBits_ceiling) }
  { assume "buffers supplied = fst_buf # snd_buf # thd_buf # others"
    with bin
    show "ValidateArrayDataCapacity supplied field n = Returns OK \<longleftrightarrow>
            \<lceil>real_of_int n / 8\<rceil> \<le> capacity fst_buf \<and>
            \<lceil>real_of_int ((n + 1) * 32) / 8\<rceil> \<le> capacity snd_buf \<and> is_resizable thd_buf"
      unfolding ty_def
      by (simp add: Validate_binary_like offsets_wrap BytesForBits_ceiling) }
next
  assume fw: "(is_primitive (type_id ty) \<or> type_id ty = DECIMAL) \<and> in_int64 (n * bit_width ty)"
  then have nb: "\<not> is_binary_like (type_id ty)"
    by (cases "type_id ty") auto
  { assume "AllocArrayData ty n pool = Inr planned"
    from Alloc_fixed_width [OF nb this] obtain bitmap data where
      "AllocateBuffer pool (BytesForBits n) = Inr bitmap"
      "AllocateResizableBuffer pool (BytesForBits (int64 (n * bit_width ty))) = Inr data"
      "map buffer_size (buffers planned) = [buffer_size bitmap, buffer_size data]"
      by auto
    with fw pool
    show "map buffer_size (buffers planned) =
            [\<lceil>real_of_int n / 8\<rceil>, \<lceil>real_of_int (n * bit_width ty) / 8\<rceil>]"
      by (simp add: int64_id BytesForBits_ceiling) }
  { assume "buffers supplied = fst_buf # snd_buf # others"
    with fw nb
    show "ValidateArrayDataCapacity supplied field n = Returns OK \<longleftrightarrow>
            \<lceil>real_of_int n / 8\<rceil> \<le> capacity fst_buf \<and>
            \<lceil>real_of_int (n * bit_width ty) / 8\<rceil> \<le> capacity snd_buf"
      unfolding ty_def
      by (simp add: Validate_fixed_width int64_id BytesForBits_ceiling) }
next
  assume a: "AllocArrayData ty n pool = Inr planned \<and> buffers supplied = fst_buf # snd_buf # others"
  show "ValidateArrayDataCapacity supplied field n = Returns OK \<longleftrightarrow>
          buffer_size (buffers planned ! 0) \<le> capacity fst_buf \<and>
          buffer_size (buffers planned ! 1) \<le> capacity snd_buf \<and>
          (is_binary_like (type_id ty) \<longrightarrow> others \<noteq> [] \<and> is_resizable (hd others))"
  proof (cases "is_binary_like (type_id ty)")
    case True
    with a obtain bitmap offsets data where al:
      "AllocateBuffer pool (BytesForBits n) = Inr bitmap"
      "AllocateBuffer pool (BytesForBits (int64 (int64 (n + 1) * 32))) = Inr offsets"
      "buffers planned = [bitmap, offsets, data]"
      using Alloc_binary_like by blast
    show ?thesis
    proof (cases others)
      case Nil
      with a True show ?thesis
        unfolding ty_def by (simp add: ValidateArrayDataCapacity_def Let_def)
    next
      case (Cons thd_buf rest)
      with a True al pool show ?thesis
        unfolding ty_def by (simp add: Validate_binary_like)
    qed
  next
    case False
    from a have "AllocArrayData ty n pool = Inr planned" by simp
    from Alloc_fixed_width [OF False this] obtain bitmap data where al:
      "is_primitive (type_id ty) \<or> type_id ty = DECIMAL"
      "AllocateBuffer pool (BytesForBits n) = Inr bitmap"
      "AllocateResizableBuffer pool (BytesForBits (int64 (n * bit_width ty))) = Inr data"
      "map buffer_size (buffers planned) = [buffer_size bitmap, buffer_size data]"
      by auto
    from al(4) have "buffer_size (buffers planned ! 0) = buffer_size bitmap"
                    "buffer_size (buffers planned ! 1) = buffer_size data"
      by (auto simp: map_eq_Cons_conv)
    with a False al pool show ?thesis
      unfolding ty_def by (simp add: Validate_fixed_width)
  qed
qed


theorem planner_and_validator_minimum_sizes_witness:
  "(\<exists>planned. AllocArrayData (field_type int32_field) 10 example_pool = Inr planned \<and>
      map buffer_size (buffers planned) = [2, 40]) \<and>
   in_int64 (10 * bit_width (field_type int32_field)) \<and>
   ValidateArrayDataCapacity
     \<lparr>data_type = field_type int32_field, data_length = 10,
      buffers = [buffer_of 2 False, buffer_of 40 False]\<rparr> int32_field 10 = Returns OK \<and>
   ValidateArrayDataCapacity
     \<lparr>data_type = field_type int32_field, data_length = 10,
      buffers = [buffer_of 2 False, buffer_of 39 False]\<rparr> int32_field 10 \<noteq> Returns OK \<and>
   (\<exists>planned. AllocArrayData (field_type utf8_field) 10 example_pool = Inr planned \<and>
      map buffer_size (buffers planned) = [2, 44, 0]) \<and>
   in_int64 ((10 + 1) * 32) \<and>
   ValidateArrayDataCapacity
     \<lparr>data_type = field_type utf8_field, data_length = 10,
      buffers = [buffer_of 2 False, buffer_of 44 False, buffer_of 0 True]\<rparr> utf8_field 10
     = Returns OK \<and>
   ValidateArrayDataCapacity
     \<lparr>data_type = field_type utf8_field, data_length = 10,
      buffers = [buffer_of 2 False, buffer_of 43 False, buffer_of 0 True]\<rparr> utf8_field 10
     \<noteq> Returns OK \<and>
   (\<exists>planned. AllocArrayData (field_type decimal128_field) (2 ^ 56) example_pool = Inr planned \<and>
      buffer_size (buffers planned ! 0) = 2 ^ 53)"
proof -
  have p1: "\<And>len b. AllocateBuffer example_pool len = Inr b \<Longrightarrow> buffer_size b = len"
    by (auto simp: example_pool_def)
  have p2: "\<And>len b. AllocateResizableBuffer example_pool len = Inr b \<Longrightarrow> buffer_size b = len"
    by (auto simp: example_pool_def)
  have total: "\<forall>len. \<exists>buf. AllocateBuffer example_pool len = Inr buf"
    "\<forall>len. \<exists>buf. AllocateResizableBuffer example_pool len = Inr buf"
    by (simp_all add: example_pool_def)
  define p32 where "p32 = \<lparr>data_type = field_type int32_field, data_length = 10,
      buffers = [buffer_of 2 False, buffer_of 40 True]\<rparr>"
  define p8 where "p8 = \<lparr>data_type = field_type utf8_field, data_length = 10,
      buffers = [buffer_of 2 False, buffer_of 44 False, buffer_of 0 True]\<rparr>"
  have a32: "AllocArrayData (field_type int32_field) 10 example_pool = Inr p32"
    by (simp add: AllocArrayData_def example_pool_def int32_field_def Let_def
        BytesForBits_def int64_def p32_def buffer_of_def)
  have a8: "AllocArrayData (field_type utf8_field) 10 example_pool = Inr p8"
    by (simp add: AllocArrayData_def example_pool_def utf8_field_def Let_def
        BytesForBits_def int64_def p8_def buffer_of_def)
  have r32: "in_int64 (10 * bit_width (field_type int32_field))"
    by (simp add: in_int64_def int32_field_def)
  have r8: "in_int64 ((10 + 1) * 32)"
    by (simp add: in_int64_def)
  have k32: "is_primitive (type_id (field_type int32_field))"
            "bit_width (field_type int32_field) = 32"
    by (simp_all add: int32_field_def)
  have k8: "is_binary_like (type_id (field_type utf8_field))"
    by (simp add: utf8_field_def)
  have k128: "type_id (field_type decimal128_field) = DECIMAL"
    by (simp add: decimal128_field_def)
  note t32 = planner_and_validator_minimum_sizes [OF p1 p2, where field = int32_field
      and n = 10 and planned = p32 and fst_buf = "buffer_of 2 False"]
  note t8 = planner_and_validator_minimum_sizes [OF p1 p2, where field = utf8_field
      and n = 10 and planned = p8 and fst_buf = "buffer_of 2 False"
      and thd_buf = "buffer_of 0 True" and others = "[]"]
  have fixed: "map buffer_size (buffers p32) = [2, 40] \<and>
      ValidateArrayDataCapacity \<lparr>data_type = field_type int32_field, data_length = 10,
        buffers = [buffer_of 2 False, buffer_of 40 False]\<rparr> int32_field 10 = Returns OK \<and>
      ValidateArrayDataCapacity \<lparr>data_type = field_type int32_field, data_length = 10,
        buffers = [buffer_of 2 False, buffer_of 39 False]\<rparr> int32_field 10 \<noteq> Returns OK"
    using
      t32 [where snd_buf = "buffer_of 40 False" and others = "[]"
        and rest_bufs = "[buffer_of 40 False]"
        and supplied = "\<lparr>data_type = field_type int32_field,
          data_length = 10, buffers = [buffer_of 2 False, buffer_of 40 False]\<rparr>"]
      t32 [where snd_buf = "buffer_of 39 False" and others = "[]"
        and rest_bufs = "[buffer_of 39 False]"
        and supplied = "\<lparr>data_type = field_type int32_field,
          data_length = 10, buffers = [buffer_of 2 False, buffer_of 39 False]\<rparr>"]
      a32 r32 k32
    by (simp add: buffer_of_def)
  have varlen: "map buffer_size (buffers p8) = [2, 44, 0] \<and>
      ValidateArrayDataCapacity \<lparr>data_type = field_type utf8_field, data_length = 10,
        buffers = [buffer_of 2 False, buffer_of 44 False, buffer_of 0 True]\<rparr> utf8_field 10
        = Returns OK \<and>
      ValidateArrayDataCapacity \<lparr>data_type = field_type utf8_field, data_length = 10,
        buffers = [buffer_of 2 False, buffer_of 43 False, buffer_of 0 True]\<rparr> utf8_field 10
        \<noteq> Returns OK"
    using
      t8 [where snd_buf = "buffer_of 44 False"
        and rest_bufs = "[buffer_of 44 False, buffer_of 0 True]" and supplied = "\<lparr>data_type = field_type utf8_field,
        data_length = 10, buffers = [buffer_of 2 False, buffer_of 44 False, buffer_of 0 True]\<rparr>"]
      t8 [where snd_buf = "buffer_of 43 False"
        and rest_bufs = "[buffer_of 43 False, buffer_of 0 True]" and supplied = "\<lparr>data_type = field_type utf8_field,
        data_length = 10, buffers = [buffer_of 2 False, buffer_of 43 False, buffer_of 0 True]\<rparr>"]
      a8 r8 k8
    by (simp add: buffer_of_def)
  obtain p128 where a128:
    "AllocArrayData (field_type decimal128_field) (2 ^ 56) example_pool = Inr p128"
    using total k128
      planner_and_validator_minimum_sizes [OF p1 p2, where field = decimal128_field
        and n = "2 ^ 56"]
    by blast
  have bitmap: "buffer_size (buffers p128 ! 0) = 2 ^ 53"
    using a128
      planner_and_validator_minimum_sizes [OF p1 p2, where field = decimal128_field
        and n = "2 ^ 56" and planned = p128]
    by (simp add: BytesForBits_def flip: BytesForBits_ceiling)
  from fixed varlen a32 a8 r32 r8 a128 bitmap show ?thesis
    by simp
qed

text \<open>
  The two formulas that have a condition in C1 fail without it. With \<open>2 ^ 59 - 1\<close> rows,
  \<open>(n + 1) * 32\<close> is \<open>2 ^ 64\<close> and wraps to 0: the validator accepts offsets of capacity
  0, where \<open>ceil((n + 1) * 32 / 8)\<close> is \<open>2 ^ 61\<close>. With \<open>2 ^ 56\<close> rows of a 128-bit
  decimal, \<open>n * w\<close> is \<open>2 ^ 63\<close> and wraps to \<open>- 2 ^ 63\<close>: the planner asks for
  \<open>- 2 ^ 60\<close> bytes of data and the validator accepts a data buffer of capacity 0, where
  \<open>ceil(n * w / 8)\<close> is \<open>2 ^ 60\<close>.
\<close>

theorem planner_and_validator_minimum_sizes_counterexample:
  "ValidateArrayDataCapacity
     \<lparr>data_type = field_type decimal128_field, data_length = 2 ^ 56,
      buffers = [buffer_of (2 ^ 53) False, buffer_of 0 False]\<rparr> decimal128_field (2 ^ 56)
     = Returns OK \<and>
   \<not> \<lceil>real_of_int (2 ^ 56 * bit_width (field_type decimal128_field)) / 8\<rceil> \<le>
       capacity (buffer_of 0 False) \<and>
   AllocArrayData (field_type decimal128_field) (2 ^ 56) example_pool =
     Inr \<lparr>data_type = field_type decimal128_field, data_length = 2 ^ 56,
          buffers = [buffer_of (2 ^ 53) False, buffer_of (- (2 ^ 60)) True]\<rparr> \<and>
   \<lceil>real_of_int (2 ^ 56 * bit_width (field_type decimal128_field)) / 8\<rceil> = 2 ^ 60 \<and>
   ValidateArrayDataCapacity
     \<lparr>data_type = field_type utf8_field, data_length = 2 ^ 59 - 1,
      buffers = [buffer_of (2 ^ 56) False, buffer_of 0 False, buffer_of 0 True]\<rparr>
     utf8_field (2 ^ 59 - 1) = Returns OK \<and>
   \<not> \<lceil>real_of_int ((2 ^ 59 - 1 + 1) * 32) / 8\<rceil> \<le> capacity (buffer_of 0 False)"
proof -
  have c: "\<lceil>real_of_int (2 ^ 56 * bit_width (field_type decimal128_field)) / 8\<rceil> = 2 ^ 60"
    by (simp add: BytesForBits_def decimal128_field_def flip: BytesForBits_ceiling)
  have c': "\<lceil>real_of_int ((2 ^ 59 - 1 + 1) * 32) / 8\<rceil> = 2 ^ 61"
    by (simp add: BytesForBits_def flip: BytesForBits_ceiling)
  have v: "ValidateArrayDataCapacity
     \<lparr>data_type = field_type decimal128_field, data_length = 2 ^ 56,
      buffers = [buffer_of (2 ^ 53) False, buffer_of 0 False]\<rparr> decimal128_field (2 ^ 56)
     = Returns OK"
    by (simp add: ValidateArrayDataCapacity_def decimal128_field_def buffer_of_def
        BytesForBits_def int64_def Let_def)
  have a: "AllocArrayData (field_type decimal128_field) (2 ^ 56) example_pool =
     Inr \<lparr>data_type = field_type decimal128_field, data_length = 2 ^ 56,
          buffers = [buffer_of (2 ^ 53) False, buffer_of (- (2 ^ 60)) True]\<rparr>"
    by (simp add: AllocArrayData_def example_pool_def decimal128_field_def buffer_of_def
        BytesForBits_def int64_def Let_def)
  have v': "ValidateArrayDataCapacity
     \<lparr>data_type = field_type utf8_field, data_length = 2 ^ 59 - 1,
      buffers = [buffer_of (2 ^ 56) False, buffer_of 0 False, buffer_of 0 True]\<rparr>
     utf8_field (2 ^ 59 - 1) = Returns OK"
    by (simp add: ValidateArrayDataCapacity_def utf8_field_def buffer_of_def
        BytesForBits_def int64_def Let_def)
  from c c' v a v' show ?thesis
    by (simp add: buffer_of_def)
qed

subsection \<open>The cache key\<close>

lemma operator_eq_iff:
  "operator_eq a b \<longleftrightarrow>
     Schema_Equals (key_schema a) (key_schema b) \<and>
     key_configuration a = key_configuration b \<and>
     key_expressions_as_strings a = key_expressions_as_strings b \<and>
     key_mode a = key_mode b \<and>
     key_uniqifier a = key_uniqifier b"
  by (simp add: operator_eq_def operator_eq_run_def)

text \<open>
  C2. \<open>operator==\<close> of the cache key is reflexive, symmetric and transitive; two keys
  compare equal exactly when their schemas (structurally), configurations, lists of
  expression strings, modes and uniqifiers are equal; and the members it compares are, in
  the order schema, configuration, expression strings, mode, uniqifier, those up to and
  including the first mismatch (all five when there is none).
\<close>

theorem cache_key_equality:
  "operator_eq k k \<and>
   (operator_eq a b \<longrightarrow> operator_eq b a) \<and>
   (operator_eq a b \<and> operator_eq b c \<longrightarrow> operator_eq a c) \<and>
   (operator_eq a b \<longleftrightarrow>
      Schema_Equals (key_schema a) (key_schema b) \<and>
      key_configuration a = key_configuration b \<and>
      key_expressions_as_strings a = key_expressions_as_strings b \<and>
      key_mode a = key_mode b \<and>
      key_uniqifier a = key_uniqifier b) \<and>
   compared_members a b =
     take (Suc (length (takeWhile (\<lambda>equal. equal)
                  [Schema_Equals (key_schema a) (key_schema b),
                   key_configuration a = key_configuration b,
                   key_expressions_as_strings a = key_expressions_as_strings b,
                   key_mode a = key_mode b,
                   key_uniqifier a = key_uniqifier b])))
       [Schema_member, Configuration_member, Expressions_member, Mode_member,
        Uniqifier_member]"
proof (intro conjI impI)
  show "operator_eq k k"
    by (simp add: operator_eq_iff Schema_Equals_def)
  show "operator_eq b a" if "operator_eq a b"
    using that by (simp add: operator_eq_iff Schema_Equals_def)
  show "operator_eq a c" if "operator_eq a b \<and> operator_eq b c"
    using that by (simp add: operator_eq_iff Schema_Equals_def)
  show "operator_eq a b \<longleftrightarrow>
      Schema_Equals (key_schema a) (key_schema b) \<and>
      key_configuration a = key_configuration b \<and>
      key_expressions_as_strings a = key_expressions_as_strings b \<and>
      key_mode a = key_mode b \<and>
      key_uniqifier a = key_uniqifier b"
    by (rule operator_eq_iff)
  show "compared_members a b =
     take (Suc (length (takeWhile (\<lambda>equal. equal)
                  [Schema_Equals (key_schema a) (key_schema b),
                   key_configuration a = key_configuration b,
                   key_expressions_as_strings a = key_expressions_as_strings b,
                   key_mode a = key_mode b,
                   key_uniqifier a = key_uniqifier b])))
       [Schema_member, Configuration_member, Expressions_member, Mode_member,
        Uniqifier_member]"
    by (simp add: compared_members_def operator_eq_run_def)
qed

lemmas key_eval =
  example_key_def new_ProjectorCacheKey_def example_hashing_def UpdateUniqifier_def
  string_find_def add_expr_def like_expr_def int32_field_def utf8_field_def Let_def
  kSeedValue_def operator_eq_def operator_eq_run_def Schema_Equals_def

theorem cache_key_equality_witness:
  "operator_eq (example_key 35 [add_expr] 0) (example_key 35 [add_expr] 0) \<and>
   operator_eq (example_key 35 [add_expr] 0) (example_key 99 [add_expr\<lparr>expr_tree := 7\<rparr>] 0) \<and>
   operator_eq (example_key 99 [add_expr\<lparr>expr_tree := 7\<rparr>] 0) (example_key 35 [add_expr] 0) \<and>
   operator_eq (example_key 99 [add_expr\<lparr>expr_tree := 7\<rparr>] 0) (example_key 12 [add_expr] 0) \<and>
   operator_eq (example_key 35 [add_expr] 0) (example_key 12 [add_expr] 0) \<and>
   compared_members (example_key 35 [add_expr] 0) (example_key 99 [add_expr\<lparr>expr_tree := 7\<rparr>] 0) =
     [Schema_member, Configuration_member, Expressions_member, Mode_member, Uniqifier_member] \<and>
   \<not> operator_eq (example_key 35 [add_expr] 0) (example_key 35 [add_expr] 1) \<and>
   compared_members (example_key 35 [add_expr] 0) (example_key 35 [add_expr] 1) =
     [Schema_member, Configuration_member, Expressions_member, Mode_member] \<and>
   \<not> operator_eq (example_key 35 [like_expr] 0) (example_key 36 [like_expr] 0) \<and>
   compared_members (example_key 35 [like_expr] 0) (example_key 36 [like_expr] 0) =
     [Schema_member, Configuration_member, Expressions_member, Mode_member, Uniqifier_member] \<and>
   compared_members (example_key 35 [like_expr] 0) (example_key 35 [add_expr] 0) =
     [Schema_member, Configuration_member, Expressions_member]"
proof -
  have ab: "operator_eq (example_key 35 [add_expr] 0)
                        (example_key 99 [add_expr\<lparr>expr_tree := 7\<rparr>] 0)"
    by (simp add: key_eval compared_members_def)
  have bc: "operator_eq (example_key 99 [add_expr\<lparr>expr_tree := 7\<rparr>] 0)
                        (example_key 12 [add_expr] 0)"
    by (simp add: key_eval compared_members_def)
  note t = cache_key_equality [where k = "example_key 35 [add_expr] 0"
      and a = "example_key 35 [add_expr] 0"
      and b = "example_key 99 [add_expr\<lparr>expr_tree := 7\<rparr>] 0"
      and c = "example_key 12 [add_expr] 0"]
  have sym: "operator_eq (example_key 99 [add_expr\<lparr>expr_tree := 7\<rparr>] 0)
                         (example_key 35 [add_expr] 0)"
    using t ab by blast
  have trans: "operator_eq (example_key 35 [add_expr] 0) (example_key 12 [add_expr] 0)"
    using t ab bc by blast
  have refl: "operator_eq (example_key 35 [add_expr] 0) (example_key 35 [add_expr] 0)"
    using t by blast
  from refl ab sym bc trans show ?thesis
    by (simp add: key_eval compared_members_def)
qed


lemma key_loop_eq:
  "key_loop h t es (strings, result, uniqifier) =
     (strings @ map expr_ToString es,
      foldl (hash_combine_string h) result (map expr_ToString es),
      foldl (\<lambda>u s. UpdateUniqifier t s u) uniqifier (map expr_ToString es))"
  by (induction es arbitrary: strings result uniqifier) (simp_all add: Let_def)

lemma new_key_fields:
  "key_schema (new_ProjectorCacheKey h t s c es m) = s"
  "key_configuration (new_ProjectorCacheKey h t s c es m) = c"
  "key_mode (new_ProjectorCacheKey h t s c es m) = m"
  "key_expressions_as_strings (new_ProjectorCacheKey h t s c es m) = map expr_ToString es"
  "key_uniqifier (new_ProjectorCacheKey h t s c es m) =
     foldl (\<lambda>u s. UpdateUniqifier t s u) 0 (map expr_ToString es)"
  "key_hash_code (new_ProjectorCacheKey h t s c es m) =
     hash_combine_uint32_t h
       (hash_combine_string h
         (hash_combine_size_t h
           (hash_combine_size_t h
             (foldl (hash_combine_string h) kSeedValue (map expr_ToString es))
             (of_nat m))
           (Configuration_Hash h c))
         (Schema_ToString h s))
       (foldl (\<lambda>u s. UpdateUniqifier t s u) 0 (map expr_ToString es))"
  by (simp_all add: new_ProjectorCacheKey_def key_loop_eq Let_def)

lemma new_key_hash:
  fixes k :: "'c ProjectorCacheKey"
  assumes "k = new_ProjectorCacheKey h t s c es m"
  shows "Hash k =
     hash_combine_uint32_t h
       (hash_combine_string h
         (hash_combine_size_t h
           (hash_combine_size_t h
             (foldl (hash_combine_string h) kSeedValue (key_expressions_as_strings k))
             (of_nat (key_mode k)))
           (Configuration_Hash h (key_configuration k)))
         (Schema_ToString h (key_schema k)))
       (key_uniqifier k)"
  by (simp add: assms Hash_def new_key_fields)

text \<open>
  C3. The hash is consistent with equality: two keys built by the constructor (with the
  same hash functions) that compare equal under \<open>operator==\<close> have the same \<open>Hash()\<close>.
  The hash starts from the seed 4 and folds in, in this order, each expression's string,
  the mode, the configuration's hash, the schema's string and the uniqifier.
\<close>

theorem hash_consistent_with_equality:
  "(operator_eq (new_ProjectorCacheKey h t1 s1 c1 es1 m1)
                (new_ProjectorCacheKey h t2 s2 c2 es2 m2) \<longrightarrow>
      Hash (new_ProjectorCacheKey h t1 s1 c1 es1 m1) =
      Hash (new_ProjectorCacheKey h t2 s2 c2 es2 m2)) \<and>
   Hash (new_ProjectorCacheKey h t s c es m) =
     hash_combine_uint32_t h
       (hash_combine_string h
         (hash_combine_size_t h
           (hash_combine_size_t h
             (foldl (hash_combine_string h) kSeedValue (map expr_ToString es))
             (of_nat m))
           (Configuration_Hash h c))
         (Schema_ToString h s))
       (key_uniqifier (new_ProjectorCacheKey h t s c es m)) \<and>
   kSeedValue = 4"
proof (intro conjI impI)
  define k1 where "k1 = new_ProjectorCacheKey h t1 s1 c1 es1 m1"
  define k2 where "k2 = new_ProjectorCacheKey h t2 s2 c2 es2 m2"
  assume "operator_eq (new_ProjectorCacheKey h t1 s1 c1 es1 m1)
                      (new_ProjectorCacheKey h t2 s2 c2 es2 m2)"
  then have "operator_eq k1 k2"
    by (simp add: k1_def k2_def)
  then have same: "key_schema k1 = key_schema k2" "key_configuration k1 = key_configuration k2"
    "key_expressions_as_strings k1 = key_expressions_as_strings k2"
    "key_mode k1 = key_mode k2" "key_uniqifier k1 = key_uniqifier k2"
    by (simp_all add: operator_eq_iff Schema_Equals_def)
  have "Hash k1 = Hash k2"
    unfolding new_key_hash [OF k1_def] new_key_hash [OF k2_def] same ..
  then show "Hash (new_ProjectorCacheKey h t1 s1 c1 es1 m1) =
             Hash (new_ProjectorCacheKey h t2 s2 c2 es2 m2)"
    by (simp add: k1_def k2_def)
next
  show "Hash (new_ProjectorCacheKey h t s c es m) =
     hash_combine_uint32_t h
       (hash_combine_string h
         (hash_combine_size_t h
           (hash_combine_size_t h
             (foldl (hash_combine_string h) kSeedValue (map expr_ToString es))
             (of_nat m))
           (Configuration_Hash h c))
         (Schema_ToString h s))
       (key_uniqifier (new_ProjectorCacheKey h t s c es m))"
    by (simp add: Hash_def new_key_fields)
next
  show "kSeedValue = 4"
    by (simp add: kSeedValue_def)
qed

theorem hash_consistent_with_equality_witness:
  "operator_eq (example_key 35 [add_expr] 0) (example_key 99 [add_expr\<lparr>expr_tree := 7\<rparr>] 0) \<and>
   Hash (example_key 35 [add_expr] 0) = Hash (example_key 99 [add_expr\<lparr>expr_tree := 7\<rparr>] 0) \<and>
   Hash (example_key 35 [add_expr] 0) = 152381275"
proof -
  have ab: "operator_eq (example_key 35 [add_expr] 0)
                        (example_key 99 [add_expr\<lparr>expr_tree := 7\<rparr>] 0)"
    by (simp add: key_eval Hash_def)
  have "Hash (example_key 35 [add_expr] 0) =
        Hash (example_key 99 [add_expr\<lparr>expr_tree := 7\<rparr>] 0)"
    using ab hash_consistent_with_equality [where h = example_hashing
        and ?t1.0 = 35 and ?t2.0 = 99 and ?s1.0 = "[int32_field, utf8_field]"
        and ?s2.0 = "[int32_field, utf8_field]" and ?c1.0 = 0 and ?c2.0 = 0
        and ?es1.0 = "[add_expr]" and ?es2.0 = "[add_expr\<lparr>expr_tree := 7\<rparr>]"
        and ?m1.0 = 0 and ?m2.0 = 0]
    unfolding example_key_def by blast
  moreover have "Hash (example_key 35 [add_expr] 0) = 152381275"
    by (simp add: key_eval Hash_def)
  ultimately show ?thesis
    using ab by simp
qed


lemma string_find_from_None:
  "string_find_from s pat pos = None \<longleftrightarrow> \<not> sublist pat s"
  by (induction s arbitrary: pos) (auto simp: sublist_Cons_right)

lemma string_find_sublist: "string_find s pat \<noteq> None \<longleftrightarrow> sublist pat s"
  by (simp add: string_find_def string_find_from_None)

lemma ucast_mod_16_le: "unat (ucast (t mod 16 :: size_t) :: uint32_t) \<le> 15"
proof -
  have "unat (t mod 16) < 16"
    by (simp add: unat_mod_distrib)
  moreover have "unat (ucast (t mod 16) :: uint32_t) \<le> unat (t mod 16)"
    by (simp add: unsigned_ucast_eq take_bit_nat_less_eq_self)
  ultimately show ?thesis by simp
qed

lemma UpdateUniqifier_fold:
  "foldl (\<lambda>u s. UpdateUniqifier t s u) u strs =
     (if u \<noteq> 0 then u
      else if list_ex (\<lambda>s. string_find s '' like('' \<noteq> None) strs then ucast (t mod 16)
      else 0)"
proof (induction strs arbitrary: u)
  case Nil
  then show ?case by simp
next
  case (Cons s strs)
  show ?case
    by (simp add: Cons.IH) (auto simp: UpdateUniqifier_def)
qed


text \<open>
  C9. The uniqifier of a key is 0 when no expression's string contains \<^verbatim>\<open> like(\<close>;
  when some expression's string contains it, the uniqifier is the hash of the calling
  thread's id modulo 16; it is always between 0 and 15; \<open>UpdateUniqifier\<close> leaves a
  uniqifier that is not 0 as it is; and \<open>find\<close> gives a position exactly when the string
  contains the pattern.
\<close>

theorem uniqifier_assignment:
  fixes h :: "'c hashing" and es :: "'n Expression list"
    and t :: size_t and sch :: Schema and c :: 'c and m :: Mode
  defines "k \<equiv> new_ProjectorCacheKey h t sch c es m"
  shows
    "((\<forall>e \<in> set es. string_find (expr_ToString e) '' like('' = None) \<longrightarrow> key_uniqifier k = 0) \<and>
     ((\<exists>e \<in> set es. string_find (expr_ToString e) '' like('' \<noteq> None) \<longrightarrow>
        key_uniqifier k = ucast (t mod 16)) \<and>
     unat (key_uniqifier k) \<le> 15 \<and>
     (uniqifier \<noteq> 0 \<longrightarrow> UpdateUniqifier t s uniqifier = uniqifier) \<and>
     (string_find s '' like('' \<noteq> None \<longleftrightarrow> sublist '' like('' s)"
proof -
  have u: "key_uniqifier k =
      (if list_ex (\<lambda>s. string_find s '' like('' \<noteq> None) (map expr_ToString es)
       then ucast (t mod 16) else 0)"
    by (simp add: k_def new_key_fields UpdateUniqifier_fold)
  have ex: "list_ex (\<lambda>s. string_find s '' like('' \<noteq> None) (map expr_ToString es) \<longleftrightarrow>
      (\<exists>e \<in> set es. string_find (expr_ToString e) '' like('' \<noteq> None)"
    by (simp add: list_ex_iff)
  have "unat (key_uniqifier k) \<le> 15"
    unfolding u using ucast_mod_16_le [of t] by simp
  moreover have "uniqifier \<noteq> 0 \<longrightarrow> UpdateUniqifier t s uniqifier = uniqifier"
    by (simp add: UpdateUniqifier_def)
  moreover have "string_find s '' like('' \<noteq> None \<longleftrightarrow> sublist '' like('' s"
    by (rule string_find_sublist)
  ultimately show ?thesis
    unfolding u ex by auto
qed

theorem uniqifier_assignment_witness:
  "key_uniqifier (example_key 35 [add_expr] 0) = 0 \<and>
   key_uniqifier (example_key 35 [add_expr, like_expr] 0) = 3 \<and>
   key_uniqifier (example_key 35 [add_expr, like_expr] 0) = ucast (35 mod 16 :: size_t) \<and>
   unat (key_uniqifier (example_key 35 [add_expr, like_expr] 0)) \<le> 15 \<and>
   UpdateUniqifier 35 (expr_ToString like_expr) 7 = 7 \<and>
   sublist '' like('' (expr_ToString like_expr)"
proof -
  have none: "\<forall>e \<in> set [add_expr]. string_find (expr_ToString e) '' like('' = None"
    by (simp add: add_expr_def string_find_def)
  have some: "\<exists>e \<in> set [add_expr, like_expr]. string_find (expr_ToString e) '' like('' \<noteq> None"
    by (simp add: like_expr_def string_find_def)
  have found: "string_find (expr_ToString like_expr) '' like('' \<noteq> None"
    by (simp add: like_expr_def string_find_def)
  have nz: "(7 :: uint32_t) \<noteq> 0"
    by simp
  have m: "ucast (35 mod 16 :: size_t) = (3 :: uint32_t)"
    by simp
  from uniqifier_assignment [where h = example_hashing and t = 35
        and sch = "[int32_field, utf8_field]" and c = 0 and es = "[add_expr]" and m = 0
        and uniqifier = 7 and s = "expr_ToString like_expr"]
    uniqifier_assignment [where h = example_hashing and t = 35
        and sch = "[int32_field, utf8_field]" and c = 0 and es = "[add_expr, like_expr]"
        and m = 0 and uniqifier = 7 and s = "expr_ToString like_expr"]
    none some found nz m
  show ?thesis
    unfolding example_key_def by simp
qed

subsection \<open>The cache\<close>

lemma find_Some_member: "find P xs = Some x \<Longrightarrow> x \<in> set xs \<and> P x"
  by (induction xs) (auto split: if_splits)

lemma GetModule_equal_keys:
  assumes "operator_eq k2 k"
  shows "GetModule cache k2 = GetModule cache k"
proof -
  from assms have "operator_eq (fst entry) k2 = operator_eq (fst entry) k" for entry
    by (auto simp: operator_eq_iff Schema_Equals_def)
  then have "find (\<lambda>entry. operator_eq (fst entry) k2) cache =
             find (\<lambda>entry. operator_eq (fst entry) k) cache"
    by (intro find_cong) simp_all
  then show ?thesis
    by (simp add: GetModule_def)
qed

lemma GetModule_PutModule:
  assumes "operator_eq k k2"
  shows "GetModule (PutModule cache k v) k2 = Some (cached_module v)"
  using assms by (simp add: GetModule_def PutModule_def)

lemma GetModule_Some:
  assumes "GetModule cache k = Some p"
  shows "\<exists>entry \<in> set cache. operator_eq (fst entry) k \<and> cached_module (snd entry) = p"
proof -
  from assms obtain entry where "find (\<lambda>entry. operator_eq (fst entry) k) cache = Some entry"
      "cached_module (snd entry) = p"
    by (auto simp: GetModule_def split: option.splits)
  then show ?thesis
    using find_Some_member by fastforce
qed

lemma GetModule_None:
  "GetModule cache k = None \<longleftrightarrow> \<not> (\<exists>entry \<in> set cache. operator_eq (fst entry) k)"
proof (cases "find (\<lambda>entry. operator_eq (fst entry) k) cache")
  case None
  then have "\<not> (\<exists>entry \<in> set cache. operator_eq (fst entry) k)"
    by (simp only: find_None_iff) blast
  with None show ?thesis
    by (simp add: GetModule_def)
next
  case (Some entry)
  with find_Some_member [OF Some] show ?thesis
    by (auto simp: GetModule_def)
qed

subsection \<open>Make\<close>

lemma validate_exprs_calls:
  "\<exists>n \<le> length es. snd (validate_exprs b g s es) = map Call_Validate (take n es)"
proof (induction es)
  case Nil
  then show ?case by simp
next
  case (Cons e es)
  then obtain n where n: "n \<le> length es"
      "snd (validate_exprs b g s es) = map Call_Validate (take n es)"
    by blast
  show ?case
  proof (cases "ExprValidator_Validate b g s e = OK")
    case True
    with n have "snd (validate_exprs b g s (e # es)) = map Call_Validate (take (Suc n) (e # es))"
      by (auto simp: Let_def split: prod.splits)
    with n(1) show ?thesis
      by (intro exI [of _ "Suc n"]) simp
  next
    case False
    then have "snd (validate_exprs b g s (e # es)) = map Call_Validate (take 1 (e # es))"
      by (simp add: Let_def)
    then show ?thesis
      by (intro exI [of _ 1]) simp
  qed
qed

lemma validate_exprs_no_put: "Cache_PutModule \<notin> set (snd (validate_exprs b g s es))"
  using validate_exprs_calls [of es b g s] by auto

lemma validate_exprs_all_ok:
  "(\<forall>e \<in> set es. ExprValidator_Validate b g s e = OK) \<Longrightarrow>
     validate_exprs b g s es = (OK, map Call_Validate es)"
  by (induction es) (simp_all add: Let_def)

lemma validate_exprs_first_failure:
  "(\<forall>x \<in> set pre. ExprValidator_Validate b g s x = OK) \<Longrightarrow>
   ExprValidator_Validate b g s e \<noteq> OK \<Longrightarrow>
     validate_exprs b g s (pre @ e # post) =
       (ExprValidator_Validate b g s e, map Call_Validate (pre @ [e]))"
  by (induction pre) (simp_all add: Let_def)

lemma validate_exprs_ok_iff:
  "fst (validate_exprs b g s es) = OK \<longleftrightarrow> (\<forall>e \<in> set es. ExprValidator_Validate b g s e = OK)"
  by (induction es) (auto simp: Let_def split: prod.splits)

text \<open>\<open>Make\<close> past its three argument checks and a cache miss.\<close>

lemma Make_miss:
  assumes "exprs \<noteq> []"
      and "GetModule (projector_cache mem) (new_ProjectorCacheKey h t s c exprs mode) = None"
  shows "Make h b t elapsed (Some s) exprs mode (Some c) mem =
     (case LLVMGenerator_Make b c of
        (st1, llvm_gen) \<Rightarrow>
      if st1 \<noteq> OK
      then \<lparr>made_status = st1, made_projector = None, made_memory = mem,
            made_calls = [New_ProjectorCacheKey, Cache_GetModule, Call_LLVMGenerator_Make]\<rparr>
      else
     (case validate_exprs b llvm_gen s exprs of
        (st2, validations) \<Rightarrow>
      if st2 \<noteq> OK
      then \<lparr>made_status = st2, made_projector = None, made_memory = mem,
            made_calls = [New_ProjectorCacheKey, Cache_GetModule, Call_LLVMGenerator_Make]
                           @ validations\<rparr>
      else
     (case LLVMGenerator_Build b llvm_gen exprs mode of
        (st3, built_gen) \<Rightarrow>
      if st3 \<noteq> OK
      then \<lparr>made_status = st3, made_projector = None, made_memory = mem,
            made_calls = [New_ProjectorCacheKey, Cache_GetModule, Call_LLVMGenerator_Make]
                           @ validations @ [Call_Build]\<rparr>
      else
      \<lparr>made_status = OK, made_projector = Some (length (projectors mem)),
       made_memory =
         \<lparr>projector_cache = PutModule (projector_cache mem)
            (new_ProjectorCacheKey h t s c exprs mode)
            \<lparr>cached_module = length (projectors mem), build_cost = elapsed\<rparr>,
          projectors = projectors mem @
            [\<lparr>llvm_generator = built_gen, proj_schema = s,
              output_fields = map expr_result exprs, proj_configuration = c\<rparr>]\<rparr>,
       made_calls = [New_ProjectorCacheKey, Cache_GetModule, Call_LLVMGenerator_Make]
                      @ validations @ [Call_Build, Cache_PutModule]\<rparr>)))"
  using assms by (simp add: Make_def Let_def split: prod.splits)

lemma Make_hit:
  assumes "exprs \<noteq> []"
      and "GetModule (projector_cache mem) (new_ProjectorCacheKey h t s c exprs mode) = Some p"
  shows "Make h b t elapsed (Some s) exprs mode (Some c) mem =
     \<lparr>made_status = OK, made_projector = Some p, made_memory = mem,
      made_calls = [New_ProjectorCacheKey, Cache_GetModule]\<rparr>"
  using assms by (simp add: Make_def Let_def)

lemma Make_not_OK_unchanged:
  assumes "made_status (Make h b t elapsed schema exprs mode configuration mem) \<noteq> OK"
  shows "made_memory (Make h b t elapsed schema exprs mode configuration mem) = mem \<and>
         made_projector (Make h b t elapsed schema exprs mode configuration mem) = None"
  using assms
  by (auto simp: Make_def Let_def split: option.splits prod.splits if_splits)


lemmas Make_eval =
  Make_def GetModule_def PutModule_def example_backend_def empty_memory_def
  new_ProjectorCacheKey_def example_hashing_def UpdateUniqifier_def
  string_find_def add_expr_def like_expr_def int32_field_def utf8_field_def Let_def
  kSeedValue_def operator_eq_def operator_eq_run_def Schema_Equals_def

text \<open>
  C4. \<open>Make\<close> with a null schema, an empty expression list or a null configuration returns
  an invalid-argument status; it has then built no cache key and made no call on the
  cache or the backend, it has written no projector, and the cache and the projectors
  are as before. The overload without a mode does the same, and so does the overload
  without a configuration for a null schema and an empty expression list.
\<close>

theorem Make_rejects_missing_arguments:
  fixes h :: "'c hashing" and b :: "('c, 'g, 'n) backend" and mem :: "('c, 'g) memory"
    and t :: size_t and elapsed :: int and schema :: "Schema option"
    and exprs :: "'n Expression list" and mode :: Mode and configuration :: "'c option"
  defines "r \<equiv> Make h b t elapsed schema exprs mode configuration mem"
  shows
    "(schema = None \<or> exprs = [] \<or> configuration = None \<longrightarrow>
        is_Invalid (made_status r) \<and> made_calls r = [] \<and> made_memory r = mem \<and>
        made_projector r = None) \<and>
     (schema = None \<longrightarrow> made_status r = Invalid ''Schema cannot be null'') \<and>
     (schema \<noteq> None \<and> exprs = [] \<longrightarrow> made_status r = Invalid ''Expressions cannot be empty'') \<and>
     (schema \<noteq> None \<and> exprs \<noteq> [] \<and> configuration = None \<longrightarrow>
        made_status r = Invalid ''Configuration cannot be null'') \<and>
     (schema = None \<or> exprs = [] \<or> configuration = None \<longrightarrow>
        Make_with_configuration h b t elapsed mode schema exprs configuration mem = r) \<and>
     (schema = None \<or> exprs = [] \<longrightarrow>
        is_Invalid (made_status (Make_default h b t elapsed mode configuration schema exprs mem)) \<and>
        made_calls (Make_default h b t elapsed mode configuration schema exprs mem) = [] \<and>
        made_memory (Make_default h b t elapsed mode configuration schema exprs mem) = mem \<and>
        made_projector (Make_default h b t elapsed mode configuration schema exprs mem) = None)"
  by (auto simp: r_def Make_def Make_with_configuration_def Make_default_def
      split: option.splits)

theorem Make_rejects_missing_arguments_witness:
  "Make example_hashing example_backend 35 12 None [add_expr] 0 (Some 0) empty_memory =
     \<lparr>made_status = Invalid ''Schema cannot be null'', made_projector = None,
      made_memory = empty_memory, made_calls = []\<rparr> \<and>
   Make example_hashing example_backend 35 12 (Some [int32_field]) [] 0 (Some 0) empty_memory =
     \<lparr>made_status = Invalid ''Expressions cannot be empty'', made_projector = None,
      made_memory = empty_memory, made_calls = []\<rparr> \<and>
   Make example_hashing example_backend 35 12 (Some [int32_field]) [add_expr] 0 None empty_memory =
     \<lparr>made_status = Invalid ''Configuration cannot be null'', made_projector = None,
      made_memory = empty_memory, made_calls = []\<rparr>"
  using
    Make_rejects_missing_arguments [where h = example_hashing and b = example_backend
      and t = 35 and elapsed = 12 and schema = None and exprs = "[add_expr]" and mode = 0
      and configuration = "Some 0" and mem = empty_memory]
    Make_rejects_missing_arguments [where h = example_hashing and b = example_backend
      and t = 35 and elapsed = 12 and schema = "Some [int32_field]" and exprs = "[]"
      and mode = 0 and configuration = "Some 0" and mem = empty_memory]
    Make_rejects_missing_arguments [where h = example_hashing and b = example_backend
      and t = 35 and elapsed = 12 and schema = "Some [int32_field]" and exprs = "[add_expr]"
      and mode = 0 and configuration = None and mem = empty_memory]
  by (simp add: made.equality)


text \<open>
  C5. A call of \<open>Make\<close> that does not return OK leaves the cache and the projectors as
  they were and writes no projector. After a cache miss: an error of
  \<open>LLVMGenerator::Make\<close> is returned, and nothing is validated; the expressions are
  validated in the order of the list, the first error of the validator is returned, and
  no later expression is validated; an error of \<open>Build\<close> is returned. In none of these
  cases is \<open>PutModule\<close> called: when it is called, the generator was made, every
  expression was validated and the build succeeded, and it is the last call.
\<close>

theorem Make_failure_inserts_nothing:
  fixes h :: "'c hashing" and b :: "('c, 'g, 'n) backend" and mem :: "('c, 'g) memory"
    and t :: size_t and elapsed :: int and s :: Schema
    and exprs :: "'n Expression list" and mode :: Mode and c :: 'c
  defines "r \<equiv> Make h b t elapsed (Some s) exprs mode (Some c) mem"
  defines "start \<equiv> [New_ProjectorCacheKey, Cache_GetModule, Call_LLVMGenerator_Make]"
  assumes miss: "GetModule (projector_cache mem) (new_ProjectorCacheKey h t s c exprs mode) = None"
      and nonempty: "exprs \<noteq> []"
  shows
    "(made_status (Make h b t elapsed schema exprs mode configuration mem) \<noteq> OK \<longrightarrow>
        made_memory (Make h b t elapsed schema exprs mode configuration mem) = mem \<and>
        made_projector (Make h b t elapsed schema exprs mode configuration mem) = None) \<and>
     (fst (LLVMGenerator_Make b c) \<noteq> OK \<longrightarrow>
        made_status r = fst (LLVMGenerator_Make b c) \<and> made_calls r = start \<and>
        made_memory r = mem) \<and>
     (LLVMGenerator_Make b c = (OK, gen) \<and> exprs = pre @ e # post \<and>
      (\<forall>x \<in> set pre. ExprValidator_Validate b gen s x = OK) \<and>
      ExprValidator_Validate b gen s e \<noteq> OK \<longrightarrow>
        made_status r = ExprValidator_Validate b gen s e \<and>
        made_calls r = start @ map Call_Validate (pre @ [e]) \<and>
        made_memory r = mem) \<and>
     (LLVMGenerator_Make b c = (OK, gen) \<and>
      (\<forall>x \<in> set exprs. ExprValidator_Validate b gen s x = OK) \<and>
      fst (LLVMGenerator_Build b gen exprs mode) \<noteq> OK \<longrightarrow>
        made_status r = fst (LLVMGenerator_Build b gen exprs mode) \<and>
        made_calls r = start @ map Call_Validate exprs @ [Call_Build] \<and>
        made_memory r = mem) \<and>
     (Cache_PutModule \<in> set (made_calls r) \<longrightarrow>
        made_status r = OK \<and>
        fst (LLVMGenerator_Make b c) = OK \<and>
        (\<forall>x \<in> set exprs. ExprValidator_Validate b (snd (LLVMGenerator_Make b c)) s x = OK) \<and>
        fst (LLVMGenerator_Build b (snd (LLVMGenerator_Make b c)) exprs mode) = OK \<and>
        made_calls r = start @ map Call_Validate exprs @ [Call_Build, Cache_PutModule])"
proof (intro conjI impI)
  assume "made_status (Make h b t elapsed schema exprs mode configuration mem) \<noteq> OK"
  from Make_not_OK_unchanged [OF this]
  show "made_memory (Make h b t elapsed schema exprs mode configuration mem) = mem"
    and "made_projector (Make h b t elapsed schema exprs mode configuration mem) = None"
    by simp_all
next
  assume f: "fst (LLVMGenerator_Make b c) \<noteq> OK"
  obtain st1 gen where g: "LLVMGenerator_Make b c = (st1, gen)"
    by (cases "LLVMGenerator_Make b c")
  from f have "made_status r = fst (LLVMGenerator_Make b c) \<and> made_calls r = start \<and>
        made_memory r = mem"
    unfolding r_def start_def Make_miss [OF nonempty miss]
    by (simp add: g)
  then show "made_status r = fst (LLVMGenerator_Make b c)" "made_calls r = start"
    "made_memory r = mem"
    by simp_all
next
  assume a: "LLVMGenerator_Make b c = (OK, gen) \<and> exprs = pre @ e # post \<and>
      (\<forall>x \<in> set pre. ExprValidator_Validate b gen s x = OK) \<and>
      ExprValidator_Validate b gen s e \<noteq> OK"
  then have v: "validate_exprs b gen s exprs =
      (ExprValidator_Validate b gen s e, map Call_Validate (pre @ [e]))"
    using validate_exprs_first_failure [of pre b gen s e post] by simp
  from a have g: "LLVMGenerator_Make b c = (OK, gen)"
    by simp
  from a have bad: "ExprValidator_Validate b gen s e \<noteq> OK"
    by simp
  from bad have "made_status r = ExprValidator_Validate b gen s e \<and>
        made_calls r = start @ map Call_Validate (pre @ [e]) \<and> made_memory r = mem"
    unfolding r_def start_def Make_miss [OF nonempty miss]
    by (simp add: g v)
  then show "made_status r = ExprValidator_Validate b gen s e"
    "made_calls r = start @ map Call_Validate (pre @ [e])" "made_memory r = mem"
    by simp_all
next
  assume a: "LLVMGenerator_Make b c = (OK, gen) \<and>
      (\<forall>x \<in> set exprs. ExprValidator_Validate b gen s x = OK) \<and>
      fst (LLVMGenerator_Build b gen exprs mode) \<noteq> OK"
  then have v: "validate_exprs b gen s exprs = (OK, map Call_Validate exprs)"
    using validate_exprs_all_ok [of exprs b gen s] by simp
  obtain st3 built where bu: "LLVMGenerator_Build b gen exprs mode = (st3, built)"
    by (cases "LLVMGenerator_Build b gen exprs mode")
  from a have g: "LLVMGenerator_Make b c = (OK, gen)"
    by simp
  from a bu have bad: "st3 \<noteq> OK"
    by simp
  from bad have "made_status r = fst (LLVMGenerator_Build b gen exprs mode) \<and>
        made_calls r = start @ map Call_Validate exprs @ [Call_Build] \<and> made_memory r = mem"
    unfolding r_def start_def Make_miss [OF nonempty miss]
    by (simp add: g v bu)
  then show "made_status r = fst (LLVMGenerator_Build b gen exprs mode)"
    "made_calls r = start @ map Call_Validate exprs @ [Call_Build]" "made_memory r = mem"
    by simp_all
next
  assume put: "Cache_PutModule \<in> set (made_calls r)"
  obtain st1 gen where g: "LLVMGenerator_Make b c = (st1, gen)"
    by (cases "LLVMGenerator_Make b c")
  obtain st2 vs where v: "validate_exprs b gen s exprs = (st2, vs)"
    by (cases "validate_exprs b gen s exprs")
  obtain st3 built where bu: "LLVMGenerator_Build b gen exprs mode = (st3, built)"
    by (cases "LLVMGenerator_Build b gen exprs mode")
  have nv: "Cache_PutModule \<notin> set vs"
    using validate_exprs_no_put [of b gen s exprs] v by simp
  from put nv have ok: "st1 = OK \<and> st2 = OK \<and> st3 = OK"
    unfolding r_def Make_miss [OF nonempty miss]
    by (auto simp: g v bu split: if_splits)
  with v have all: "\<forall>x \<in> set exprs. ExprValidator_Validate b gen s x = OK"
    using validate_exprs_ok_iff [of b gen s exprs] by simp
  then have vs: "vs = map Call_Validate exprs"
    using validate_exprs_all_ok [of exprs b gen s] v by simp
  from ok show "made_status r = OK"
    unfolding r_def Make_miss [OF nonempty miss] by (simp add: g v bu)
  from ok g show "fst (LLVMGenerator_Make b c) = OK"
    by simp
  from all g show "\<forall>x \<in> set exprs.
      ExprValidator_Validate b (snd (LLVMGenerator_Make b c)) s x = OK"
    by simp
  from ok g bu show "fst (LLVMGenerator_Build b (snd (LLVMGenerator_Make b c)) exprs mode) = OK"
    by simp
  from ok vs show "made_calls r = start @ map Call_Validate exprs @ [Call_Build, Cache_PutModule]"
    unfolding r_def start_def Make_miss [OF nonempty miss] by (simp add: g v bu)
qed


theorem Make_failure_inserts_nothing_witness:
  "Make example_hashing example_backend 35 12 (Some [int32_field, utf8_field])
      [add_expr, bad_expr, like_expr] 0 (Some 0) empty_memory =
     \<lparr>made_status = OtherError ''invalid expression'', made_projector = None,
      made_memory = empty_memory,
      made_calls = [New_ProjectorCacheKey, Cache_GetModule, Call_LLVMGenerator_Make,
                    Call_Validate add_expr, Call_Validate bad_expr]\<rparr> \<and>
   Make example_hashing
      (example_backend\<lparr>LLVMGenerator_Make := \<lambda>c. (OtherError ''no generator'', c)\<rparr>)
      35 12 (Some [int32_field, utf8_field]) [add_expr, like_expr] 0 (Some 0) empty_memory =
     \<lparr>made_status = OtherError ''no generator'', made_projector = None,
      made_memory = empty_memory,
      made_calls = [New_ProjectorCacheKey, Cache_GetModule, Call_LLVMGenerator_Make]\<rparr> \<and>
   Make example_hashing
      (example_backend\<lparr>LLVMGenerator_Build := \<lambda>gen es mode. (OtherError ''no code'', gen)\<rparr>)
      35 12 (Some [int32_field, utf8_field]) [add_expr, like_expr] 0 (Some 0) empty_memory =
     \<lparr>made_status = OtherError ''no code'', made_projector = None,
      made_memory = empty_memory,
      made_calls = [New_ProjectorCacheKey, Cache_GetModule, Call_LLVMGenerator_Make,
                    Call_Validate add_expr, Call_Validate like_expr, Call_Build]\<rparr> \<and>
   made_status (Make example_hashing example_backend 35 12 (Some [int32_field, utf8_field])
      [add_expr, like_expr] 0 (Some 0) empty_memory) = OK \<and>
   made_calls (Make example_hashing example_backend 35 12 (Some [int32_field, utf8_field])
      [add_expr, like_expr] 0 (Some 0) empty_memory) =
     [New_ProjectorCacheKey, Cache_GetModule, Call_LLVMGenerator_Make,
      Call_Validate add_expr, Call_Validate like_expr, Call_Build, Cache_PutModule]"
proof -
  have miss: "GetModule (projector_cache empty_memory) k = None" for k :: "nat ProjectorCacheKey"
    by (simp add: GetModule_def empty_memory_def)
  have ne: "[add_expr, bad_expr, like_expr] \<noteq> []" "[add_expr, like_expr] \<noteq> []"
    by simp_all
  note t1 = Make_failure_inserts_nothing [OF miss ne(1), where h = example_hashing
      and b = example_backend and t = 35 and s = "[int32_field, utf8_field]" and c = 0
      and mode = 0 and gen = 0 and pre = "[add_expr]" and e = bad_expr and post = "[like_expr]"
      and elapsed = 12 and schema = "Some [int32_field, utf8_field]"
      and configuration = "Some 0"]
  note t2 = Make_failure_inserts_nothing [OF miss ne(2), where h = example_hashing
      and b = "example_backend\<lparr>LLVMGenerator_Make := \<lambda>c. (OtherError ''no generator'', c)\<rparr>"
      and t = 35 and s = "[int32_field, utf8_field]" and c = 0 and mode = 0 and elapsed = 12
      and gen = 0 and pre = "[add_expr]" and e = like_expr and post = "[]"
      and schema = "Some [int32_field, utf8_field]" and configuration = "Some 0"]
  note t3 = Make_failure_inserts_nothing [OF miss ne(2), where h = example_hashing
      and b = "example_backend\<lparr>LLVMGenerator_Build := \<lambda>gen es mode. (OtherError ''no code'', gen)\<rparr>"
      and t = 35 and s = "[int32_field, utf8_field]" and c = 0 and mode = 0
      and gen = 0 and elapsed = 12 and pre = "[add_expr]" and e = like_expr and post = "[]"
      and schema = "Some [int32_field, utf8_field]" and configuration = "Some 0"]
  note t4 = Make_failure_inserts_nothing [OF miss ne(2), where h = example_hashing
      and b = example_backend and t = 35 and s = "[int32_field, utf8_field]" and c = 0
      and mode = 0 and elapsed = 12 and gen = 0 and pre = "[add_expr]" and e = like_expr
      and post = "[]" and schema = "Some [int32_field, utf8_field]"
      and configuration = "Some 0"]
  have put: "Cache_PutModule \<in> set (made_calls (Make example_hashing example_backend 35 12
      (Some [int32_field, utf8_field]) [add_expr, like_expr] 0 (Some 0) empty_memory))"
    by (simp add: Make_eval bad_expr_def)
  from t1 t2 t3 t4 put show ?thesis
    by (simp add: Make_eval bad_expr_def)
qed

text \<open>
  C6. When the cache holds an entry whose key equals the key of the request, \<open>Make\<close>
  returns OK with the projector of such an entry, calls neither \<open>LLVMGenerator::Make\<close> nor
  the validator nor \<open>Build\<close> (its only calls are the construction of the key and
  \<open>GetModule\<close>), and leaves the cache and the projectors as they are. Hence a second
  \<open>Make\<close> with the same schema, expressions, configuration and mode, whose key has the same
  uniqifier, returns the projector of the first: the first returns a projector, the cache
  then holds it under the key, and the second returns that pointer and builds nothing.
  When the first call misses the cache and the generator, the validator and the build
  succeed, it returns OK; and when it misses and returns OK, its projector is a new one,
  made of the built generator, the schema, the result fields of the expressions and the
  configuration, and put in the cache under the key.
\<close>

theorem Make_cache_hit:
  fixes h :: "'c hashing" and b :: "('c, 'g, 'n) backend" and mem :: "('c, 'g) memory"
    and t t' :: size_t and elapsed elapsed' :: int and s :: Schema
    and exprs :: "'n Expression list" and mode :: Mode and c :: 'c
  defines "key \<equiv> new_ProjectorCacheKey h t s c exprs mode"
  defines "r \<equiv> Make h b t elapsed (Some s) exprs mode (Some c) mem"
  defines "again \<equiv> Make h b t' elapsed' (Some s) exprs mode (Some c) (made_memory r)"
  assumes nonempty: "exprs \<noteq> []"
  shows
    "((\<exists>entry \<in> set (projector_cache mem). operator_eq (fst entry) key) \<longrightarrow>
        (\<exists>entry \<in> set (projector_cache mem).
           operator_eq (fst entry) key \<and> made_projector r = Some (cached_module (snd entry))) \<and>
        made_status r = OK \<and> made_memory r = mem \<and>
        made_calls r = [New_ProjectorCacheKey, Cache_GetModule]) \<and>
     (made_status r = OK \<and>
      key_uniqifier (new_ProjectorCacheKey h t' s c exprs mode) = key_uniqifier key \<longrightarrow>
        made_status again = OK \<and> made_projector again = made_projector r \<and>
        made_memory again = made_memory r \<and>
        made_calls again = [New_ProjectorCacheKey, Cache_GetModule] \<and>
        (\<exists>p. made_projector r = Some p \<and> made_projector again = Some p \<and>
           (\<exists>entry \<in> set (projector_cache (made_memory r)).
              operator_eq (fst entry) key \<and> cached_module (snd entry) = p))) \<and>
     (GetModule (projector_cache mem) key = None \<and> made_status r = OK \<longrightarrow>
        made_projector r = Some (length (projectors mem)) \<and>
        (\<exists>built. projectors (made_memory r) = projectors mem @
           [\<lparr>llvm_generator = built, proj_schema = s,
             output_fields = map expr_result exprs, proj_configuration = c\<rparr>]) \<and>
        projector_cache (made_memory r) =
          PutModule (projector_cache mem) key
            \<lparr>cached_module = length (projectors mem), build_cost = elapsed\<rparr>) \<and>
     (GetModule (projector_cache mem) key = None \<and> LLVMGenerator_Make b c = (OK, gen) \<and>
      (\<forall>x \<in> set exprs. ExprValidator_Validate b gen s x = OK) \<and>
      LLVMGenerator_Build b gen exprs mode = (OK, built_gen) \<longrightarrow>
        made_status r = OK \<and>
        projectors (made_memory r) = projectors mem @
          [\<lparr>llvm_generator = built_gen, proj_schema = s,
            output_fields = map expr_result exprs, proj_configuration = c\<rparr>])"
proof (intro conjI impI)
  assume "\<exists>entry \<in> set (projector_cache mem). operator_eq (fst entry) key"
  then obtain p where p: "GetModule (projector_cache mem) key = Some p"
    using GetModule_None [of "projector_cache mem" key] by (cases "GetModule (projector_cache mem) key") auto
  from Make_hit [OF nonempty p [unfolded key_def]]
  have r: "r = \<lparr>made_status = OK, made_projector = Some p, made_memory = mem,
      made_calls = [New_ProjectorCacheKey, Cache_GetModule]\<rparr>"
    by (simp add: r_def)
  from GetModule_Some [OF p] r
  show "\<exists>entry \<in> set (projector_cache mem).
           operator_eq (fst entry) key \<and> made_projector r = Some (cached_module (snd entry))"
    by auto
  from r show "made_status r = OK" "made_memory r = mem"
    "made_calls r = [New_ProjectorCacheKey, Cache_GetModule]"
    by simp_all
next
  define key' where "key' = new_ProjectorCacheKey h t' s c exprs mode"
  assume a: "made_status r = OK \<and>
      key_uniqifier (new_ProjectorCacheKey h t' s c exprs mode) = key_uniqifier key"
  then have eq: "operator_eq key' key" "operator_eq key key'"
    by (simp_all add: operator_eq_iff key_def key'_def new_key_fields Schema_Equals_def)
  have stored: "\<exists>p. made_projector r = Some p \<and>
      (\<exists>entry \<in> set (projector_cache (made_memory r)).
         operator_eq (fst entry) key \<and> cached_module (snd entry) = p)"
  proof (cases "GetModule (projector_cache mem) key")
    case (Some p)
    from Make_hit [OF nonempty Some [unfolded key_def]]
    have "made_projector r = Some p" "made_memory r = mem"
      by (simp_all add: r_def)
    with GetModule_Some [OF Some] show ?thesis
      by auto
  next
    case None
    obtain st1 gen where g: "LLVMGenerator_Make b c = (st1, gen)"
      by (cases "LLVMGenerator_Make b c")
    obtain st2 vs where v: "validate_exprs b gen s exprs = (st2, vs)"
      by (cases "validate_exprs b gen s exprs")
    obtain st3 built where bu: "LLVMGenerator_Build b gen exprs mode = (st3, built)"
      by (cases "LLVMGenerator_Build b gen exprs mode")
    from a have "made_status r = OK"
      by simp
    then have ok: "st1 = OK \<and> st2 = OK \<and> st3 = OK"
      unfolding r_def Make_miss [OF nonempty None [unfolded key_def]]
      by (auto simp: g v bu split: if_splits)
    then have "projector_cache (made_memory r) =
        PutModule (projector_cache mem) key
          \<lparr>cached_module = length (projectors mem), build_cost = elapsed\<rparr> \<and>
        made_projector r = Some (length (projectors mem))"
      unfolding r_def Make_miss [OF nonempty None [unfolded key_def]]
      by (simp add: g v bu key_def)
    moreover have "operator_eq key key"
      by (simp add: operator_eq_iff Schema_Equals_def)
    ultimately show ?thesis
      by (simp add: PutModule_def)
  qed
  have hit: "GetModule (projector_cache (made_memory r)) key' = made_projector r \<and>
             made_projector r \<noteq> None"
  proof (cases "GetModule (projector_cache mem) key")
    case (Some p)
    from Make_hit [OF nonempty Some [unfolded key_def]]
    have "r = \<lparr>made_status = OK, made_projector = Some p, made_memory = mem,
        made_calls = [New_ProjectorCacheKey, Cache_GetModule]\<rparr>"
      by (simp add: r_def)
    with Some GetModule_equal_keys [OF eq(1), of "projector_cache mem"] show ?thesis
      by simp
  next
    case None
    obtain st1 gen where g: "LLVMGenerator_Make b c = (st1, gen)"
      by (cases "LLVMGenerator_Make b c")
    obtain st2 vs where v: "validate_exprs b gen s exprs = (st2, vs)"
      by (cases "validate_exprs b gen s exprs")
    obtain st3 built where bu: "LLVMGenerator_Build b gen exprs mode = (st3, built)"
      by (cases "LLVMGenerator_Build b gen exprs mode")
    from a have "made_status r = OK"
      by simp
    then have ok: "st1 = OK \<and> st2 = OK \<and> st3 = OK"
      unfolding r_def Make_miss [OF nonempty None [unfolded key_def]]
      by (auto simp: g v bu split: if_splits)
    then have "projector_cache (made_memory r) =
        PutModule (projector_cache mem) key
          \<lparr>cached_module = length (projectors mem), build_cost = elapsed\<rparr> \<and>
        made_projector r = Some (length (projectors mem))"
      unfolding r_def Make_miss [OF nonempty None [unfolded key_def]]
      by (simp add: g v bu key_def)
    with GetModule_PutModule [OF eq(2)] show ?thesis
      by simp
  qed
  then obtain p where p: "GetModule (projector_cache (made_memory r)) key' = Some p"
      "made_projector r = Some p"
    by auto
  from Make_hit [OF nonempty p(1) [unfolded key'_def]]
  have "again = \<lparr>made_status = OK, made_projector = Some p, made_memory = made_memory r,
      made_calls = [New_ProjectorCacheKey, Cache_GetModule]\<rparr>"
    by (simp add: again_def)
  with p show "made_status again = OK" "made_projector again = made_projector r"
    "made_memory again = made_memory r"
    "made_calls again = [New_ProjectorCacheKey, Cache_GetModule]"
    by simp_all
  then have "made_projector again = made_projector r"
    by simp
  with stored show "\<exists>p. made_projector r = Some p \<and> made_projector again = Some p \<and>
      (\<exists>entry \<in> set (projector_cache (made_memory r)).
         operator_eq (fst entry) key \<and> cached_module (snd entry) = p)"
    by auto
next
  assume a: "GetModule (projector_cache mem) key = None \<and> made_status r = OK"
  then have miss: "GetModule (projector_cache mem) (new_ProjectorCacheKey h t s c exprs mode) = None"
    by (simp add: key_def)
  obtain st1 gen where g: "LLVMGenerator_Make b c = (st1, gen)"
    by (cases "LLVMGenerator_Make b c")
  obtain st2 vs where v: "validate_exprs b gen s exprs = (st2, vs)"
    by (cases "validate_exprs b gen s exprs")
  obtain st3 built where bu: "LLVMGenerator_Build b gen exprs mode = (st3, built)"
    by (cases "LLVMGenerator_Build b gen exprs mode")
  from a have "made_status r = OK"
    by simp
  then have ok: "st1 = OK \<and> st2 = OK \<and> st3 = OK"
    unfolding r_def Make_miss [OF nonempty miss]
    by (auto simp: g v bu split: if_splits)
  then have new: "made_projector r = Some (length (projectors mem)) \<and>
      projectors (made_memory r) = projectors mem @
        [\<lparr>llvm_generator = built, proj_schema = s,
          output_fields = map expr_result exprs, proj_configuration = c\<rparr>] \<and>
      projector_cache (made_memory r) =
        PutModule (projector_cache mem) key
          \<lparr>cached_module = length (projectors mem), build_cost = elapsed\<rparr>"
    unfolding r_def Make_miss [OF nonempty miss]
    by (simp add: g v bu key_def)
  then show "made_projector r = Some (length (projectors mem))"
    and "\<exists>built. projectors (made_memory r) = projectors mem @
           [\<lparr>llvm_generator = built, proj_schema = s,
             output_fields = map expr_result exprs, proj_configuration = c\<rparr>]"
    and "projector_cache (made_memory r) =
          PutModule (projector_cache mem) key
            \<lparr>cached_module = length (projectors mem), build_cost = elapsed\<rparr>"
    by auto
next
  assume a: "GetModule (projector_cache mem) key = None \<and> LLVMGenerator_Make b c = (OK, gen) \<and>
      (\<forall>x \<in> set exprs. ExprValidator_Validate b gen s x = OK) \<and>
      LLVMGenerator_Build b gen exprs mode = (OK, built_gen)"
  then have miss: "GetModule (projector_cache mem) (new_ProjectorCacheKey h t s c exprs mode) = None"
    by (simp add: key_def)
  from a have g: "LLVMGenerator_Make b c = (OK, gen)"
    and bu: "LLVMGenerator_Build b gen exprs mode = (OK, built_gen)"
    by simp_all
  from a have v: "validate_exprs b gen s exprs = (OK, map Call_Validate exprs)"
    using validate_exprs_all_ok [of exprs b gen s] by simp
  have "made_status r = OK \<and>
        projectors (made_memory r) = projectors mem @
          [\<lparr>llvm_generator = built_gen, proj_schema = s,
            output_fields = map expr_result exprs, proj_configuration = c\<rparr>]"
    unfolding r_def Make_miss [OF nonempty miss]
    by (simp add: g v bu)
  then show "made_status r = OK"
    and "projectors (made_memory r) = projectors mem @
          [\<lparr>llvm_generator = built_gen, proj_schema = s,
            output_fields = map expr_result exprs, proj_configuration = c\<rparr>]"
    by simp_all
qed


theorem Make_cache_hit_witness:
  "Make example_hashing example_backend 35 12 (Some [int32_field, utf8_field])
      [add_expr, like_expr] 0 (Some 0) empty_memory =
     \<lparr>made_status = OK, made_projector = Some 0,
      made_memory =
        \<lparr>projector_cache =
           [(new_ProjectorCacheKey example_hashing 35 [int32_field, utf8_field] 0
               [add_expr, like_expr] 0,
             \<lparr>cached_module = 0, build_cost = 12\<rparr>)],
         projectors =
           [\<lparr>llvm_generator = 2, proj_schema = [int32_field, utf8_field],
             output_fields = [int32_field, expr_result like_expr],
             proj_configuration = 0\<rparr>]\<rparr>,
      made_calls = [New_ProjectorCacheKey, Cache_GetModule, Call_LLVMGenerator_Make,
                    Call_Validate add_expr, Call_Validate like_expr, Call_Build,
                    Cache_PutModule]\<rparr> \<and>
   key_uniqifier (new_ProjectorCacheKey example_hashing 99 [int32_field, utf8_field] 0
      [add_expr, like_expr] 0) =
   key_uniqifier (new_ProjectorCacheKey example_hashing 35 [int32_field, utf8_field] (0 :: nat)
      [add_expr, like_expr] 0) \<and>
   Make example_hashing example_backend 99 7 (Some [int32_field, utf8_field])
      [add_expr, like_expr] 0 (Some 0)
      (made_memory (Make example_hashing example_backend 35 12
         (Some [int32_field, utf8_field]) [add_expr, like_expr] 0 (Some 0) empty_memory)) =
     \<lparr>made_status = OK, made_projector = Some 0,
      made_memory = made_memory (Make example_hashing example_backend 35 12
         (Some [int32_field, utf8_field]) [add_expr, like_expr] 0 (Some 0) empty_memory),
      made_calls = [New_ProjectorCacheKey, Cache_GetModule]\<rparr>"
proof -
  define first where "first = Make example_hashing example_backend 35 12
      (Some [int32_field, utf8_field]) [add_expr, like_expr] 0 (Some 0) empty_memory"
  define key :: "nat ProjectorCacheKey" where "key = new_ProjectorCacheKey example_hashing 35
      [int32_field, utf8_field] 0 [add_expr, like_expr] 0"
  define key' :: "nat ProjectorCacheKey" where "key' = new_ProjectorCacheKey example_hashing 99
      [int32_field, utf8_field] 0 [add_expr, like_expr] 0"
  have ne: "[add_expr, like_expr] \<noteq> []"
    by simp
  have u: "key_uniqifier key' = key_uniqifier key"
    by (simp add: key_def key'_def Make_eval)
  have miss: "GetModule (projector_cache empty_memory) key = None"
    by (simp add: GetModule_def empty_memory_def)
  have backend: "LLVMGenerator_Make example_backend 0 = (OK, 0) \<and>
      (\<forall>x \<in> set [add_expr, like_expr].
         ExprValidator_Validate example_backend 0 [int32_field, utf8_field] x = OK) \<and>
      LLVMGenerator_Build example_backend 0 [add_expr, like_expr] 0 = (OK, 2)"
    by (simp add: example_backend_def add_expr_def like_expr_def)
  note twice = Make_cache_hit [OF ne, where h = example_hashing and b = example_backend
      and t = 35 and elapsed = 12 and s = "[int32_field, utf8_field]" and c = 0 and mode = 0
      and mem = empty_memory and t' = 99 and elapsed' = 7 and gen = 0 and built_gen = 2]
  from twice miss backend have ok: "made_status first = OK"
    unfolding first_def key_def by blast
  from twice miss ok have new: "made_projector first = Some 0"
    "projector_cache (made_memory first) =
       PutModule (projector_cache empty_memory) key \<lparr>cached_module = 0, build_cost = 12\<rparr>"
    unfolding first_def key_def by (simp_all add: empty_memory_def)
  from twice miss backend have built: "projectors (made_memory first) =
      [\<lparr>llvm_generator = 2, proj_schema = [int32_field, utf8_field],
        output_fields = [int32_field, expr_result like_expr], proj_configuration = 0\<rparr>]"
    unfolding first_def key_def by (simp add: empty_memory_def add_expr_def)
  have calls: "made_calls first =
      [New_ProjectorCacheKey, Cache_GetModule, Call_LLVMGenerator_Make,
       Call_Validate add_expr, Call_Validate like_expr, Call_Build, Cache_PutModule]"
    by (simp add: first_def Make_eval)
  have cached: "projector_cache (made_memory first) =
      [(key, \<lparr>cached_module = 0, build_cost = 12\<rparr>)]"
    using new(2) by (simp add: PutModule_def empty_memory_def)
  have entry: "\<exists>entry \<in> set (projector_cache (made_memory first)). operator_eq (fst entry) key'"
    unfolding cached using u
    by (simp add: operator_eq_iff key_def key'_def new_key_fields Schema_Equals_def)
  note hit = Make_cache_hit [OF ne, where h = example_hashing and b = example_backend
      and t = 99 and elapsed = 7 and s = "[int32_field, utf8_field]" and c = 0 and mode = 0
      and mem = "made_memory first" and t' = 99 and elapsed' = 7 and gen = 0 and built_gen = 2]
  from hit entry have 1: "made_calls (Make example_hashing example_backend 99 7
      (Some [int32_field, utf8_field]) [add_expr, like_expr] 0 (Some 0) (made_memory first)) =
      [New_ProjectorCacheKey, Cache_GetModule]"
    unfolding key'_def by blast
  from twice ok u new(1) have 2:
    "made_status (Make example_hashing example_backend 99 7
      (Some [int32_field, utf8_field]) [add_expr, like_expr] 0 (Some 0) (made_memory first)) = OK"
    "made_projector (Make example_hashing example_backend 99 7
      (Some [int32_field, utf8_field]) [add_expr, like_expr] 0 (Some 0) (made_memory first)) =
      Some 0"
    "made_memory (Make example_hashing example_backend 99 7
      (Some [int32_field, utf8_field]) [add_expr, like_expr] 0 (Some 0) (made_memory first)) =
      made_memory first"
    unfolding key_def key'_def first_def by simp_all
  have 3: "first = \<lparr>made_status = OK, made_projector = Some 0,
      made_memory =
        \<lparr>projector_cache = [(key, \<lparr>cached_module = 0, build_cost = 12\<rparr>)],
         projectors =
           [\<lparr>llvm_generator = 2, proj_schema = [int32_field, utf8_field],
             output_fields = [int32_field, expr_result like_expr],
             proj_configuration = 0\<rparr>]\<rparr>,
      made_calls = [New_ProjectorCacheKey, Cache_GetModule, Call_LLVMGenerator_Make,
                    Call_Validate add_expr, Call_Validate like_expr, Call_Build,
                    Cache_PutModule]\<rparr>"
    using ok new(1) cached built calls
    by (simp add: made.equality memory.equality)
  from 1 2 3 u show ?thesis
    unfolding first_def key_def key'_def
    by (simp add: made.equality)
qed

subsection \<open>Evaluation\<close>

text \<open>
  C7. Both entry points (and the overloads without a selection vector) return an
  invalid-argument status when the schema of the batch does not equal the schema of the
  projector, and when the batch has no rows; they then have not called \<open>Execute\<close>, and the
  buffers of the caller, or the output vector, are as before.
\<close>

theorem Evaluate_rejects_mismatched_or_empty_batch:
  fixes b :: "('c, 'g, 'n) backend" and this :: "('c, 'g) Projector"
  shows
    "(\<not> Schema_Equals (batch_schema batch) (proj_schema this) \<longrightarrow>
        Evaluate b this batch selection_vector output_data_vecs =
          (Returns (Invalid ''Schema in RecordBatch must match schema in Make()''), [],
           output_data_vecs) \<and>
        Evaluate_all_rows b this batch output_data_vecs =
          (Returns (Invalid ''Schema in RecordBatch must match schema in Make()''), [],
           output_data_vecs) \<and>
        Evaluate_pool b this batch selection_vector pool out =
          (Invalid ''Schema in RecordBatch must match schema in Make()'', [], out) \<and>
        Evaluate_pool_all_rows b this batch pool out =
          (Invalid ''Schema in RecordBatch must match schema in Make()'', [], out)) \<and>
     (Schema_Equals (batch_schema batch) (proj_schema this) \<and> num_rows batch = 0 \<longrightarrow>
        Evaluate b this batch selection_vector output_data_vecs =
          (Returns (Invalid ''RecordBatch must be non-empty.''), [], output_data_vecs) \<and>
        Evaluate_all_rows b this batch output_data_vecs =
          (Returns (Invalid ''RecordBatch must be non-empty.''), [], output_data_vecs) \<and>
        Evaluate_pool b this batch selection_vector pool out =
          (Invalid ''RecordBatch must be non-empty.'', [], out) \<and>
        Evaluate_pool_all_rows b this batch pool out =
          (Invalid ''RecordBatch must be non-empty.'', [], out)) \<and>
     (\<not> Schema_Equals (batch_schema batch) (proj_schema this) \<or> num_rows batch = 0 \<longrightarrow>
        (\<exists>msg. fst (Evaluate b this batch selection_vector output_data_vecs) =
                  Returns (Invalid msg)) \<and>
        Call_Execute \<notin> set (fst (snd (Evaluate b this batch selection_vector output_data_vecs))) \<and>
        (\<exists>msg. fst (Evaluate_pool b this batch selection_vector pool out) = Invalid msg) \<and>
        Call_Execute \<notin> set (fst (snd (Evaluate_pool b this batch selection_vector pool out))))"
  by (auto simp: Evaluate_def Evaluate_all_rows_def Evaluate_pool_def Evaluate_pool_all_rows_def
      ValidateEvaluateArgsCommon_def Let_def)

theorem Evaluate_rejects_mismatched_or_empty_batch_witness:
  "Evaluate example_backend example_projector
      \<lparr>batch_schema = [int32_field], num_rows = 8\<rparr> None
      [Some \<lparr>data_type = field_type int32_field, data_length = 8,
              buffers = [buffer_of 1 False, buffer_of 32 False]\<rparr>] =
     (Returns (Invalid ''Schema in RecordBatch must match schema in Make()''), [],
      [Some \<lparr>data_type = field_type int32_field, data_length = 8,
              buffers = [buffer_of 1 False, buffer_of 32 False]\<rparr>]) \<and>
   Evaluate_pool example_backend example_projector
      \<lparr>batch_schema = [int32_field], num_rows = 8\<rparr> None (Some example_pool) (Some []) =
     (Invalid ''Schema in RecordBatch must match schema in Make()'', [], Some []) \<and>
   Evaluate example_backend example_projector
      \<lparr>batch_schema = [int32_field, utf8_field], num_rows = 0\<rparr> None [] =
     (Returns (Invalid ''RecordBatch must be non-empty.''), [], []) \<and>
   Evaluate_pool example_backend example_projector
      \<lparr>batch_schema = [int32_field, utf8_field], num_rows = 0\<rparr> None
      (Some example_pool) (Some []) =
     (Invalid ''RecordBatch must be non-empty.'', [], Some [])"
proof -
  have differ: "\<not> Schema_Equals (batch_schema \<lparr>batch_schema = [int32_field], num_rows = 8\<rparr>)
      (proj_schema example_projector)"
    by (simp add: Schema_Equals_def example_projector_def)
  have empty: "Schema_Equals
      (batch_schema \<lparr>batch_schema = [int32_field, utf8_field], num_rows = 0\<rparr>)
      (proj_schema example_projector) \<and>
      num_rows \<lparr>batch_schema = [int32_field, utf8_field], num_rows = 0\<rparr> = 0"
    by (simp add: Schema_Equals_def example_projector_def)
  from differ empty
    Evaluate_rejects_mismatched_or_empty_batch [where b = example_backend
      and this = example_projector and batch = "\<lparr>batch_schema = [int32_field], num_rows = 8\<rparr>"
      and selection_vector = None and pool = "Some example_pool" and out = "Some []"
      and output_data_vecs = "[Some \<lparr>data_type = field_type int32_field, data_length = 8,
              buffers = [buffer_of 1 False, buffer_of 32 False]\<rparr>]"]
    Evaluate_rejects_mismatched_or_empty_batch [where b = example_backend
      and this = example_projector
      and batch = "\<lparr>batch_schema = [int32_field, utf8_field], num_rows = 0\<rparr>"
      and selection_vector = None and pool = "Some example_pool" and out = "Some []"
      and output_data_vecs = "[]"]
  show ?thesis
    by blast
qed


subsection \<open>Validation of the buffers of the caller\<close>

lemma Validate_returns:
  "ValidateArrayDataCapacity ad field n = Returns st \<Longrightarrow> st = OK \<or> is_Invalid st"
  by (auto simp: ValidateArrayDataCapacity_def Let_def split: if_splits option.splits)

lemma Validate_not_resizable:
  assumes "is_binary_like (type_id (field_type field))"
      and "vector_at (buffers ad) 2 = Some data"
      and "\<not> is_resizable data"
  shows "\<exists>msg. ValidateArrayDataCapacity ad field n = Returns (Invalid msg)"
  using assms
  by (auto simp: ValidateArrayDataCapacity_def Let_def vector_at_def split: if_splits)

lemma Validate_in_bounds:
  assumes "3 \<le> length (buffers ad)"
  shows "ValidateArrayDataCapacity ad field n \<noteq> OutOfBounds"
  using assms
  by (auto simp: ValidateArrayDataCapacity_def Let_def vector_at_def split: if_splits)

lemma Validate_fixed_width_in_bounds:
  assumes "\<not> is_binary_like (type_id (field_type field))"
  shows "ValidateArrayDataCapacity ad field n \<noteq> OutOfBounds"
  using assms
  by (auto simp: ValidateArrayDataCapacity_def Let_def vector_at_def split: if_splits)

text \<open>The loop over the columns stops at a column the validator refuses.\<close>

lemma validate_output_data_vecs_refused:
  assumes "i < length vecs"
      and "vecs ! i = Some ad"
      and "vector_at fs (idx + i) = Some field"
      and "\<exists>msg. ValidateArrayDataCapacity ad field rows = Returns (Invalid msg)"
  shows "validate_output_data_vecs fs idx vecs rows \<noteq> Returns OK"
  using assms
proof (induction vecs arbitrary: i idx)
  case Nil
  then show ?case by simp
next
  case (Cons v vecs)
  show ?case
  proof (cases i)
    case 0
    with Cons.prems show ?thesis
      by (auto split: option.splits outcome.splits)
  next
    case (Suc j)
    with Cons.prems have "validate_output_data_vecs fs (idx + 1) vecs rows \<noteq> Returns OK"
      by (intro Cons.IH [of j]) simp_all
    then show ?thesis
      by (auto split: option.splits outcome.splits)
  qed
qed

lemma validate_output_data_vecs_returns:
  "validate_output_data_vecs fs idx vecs rows = Returns st \<Longrightarrow> st = OK \<or> is_Invalid st"
proof (induction vecs arbitrary: idx)
  case Nil
  then show ?case by simp
next
  case (Cons v vecs)
  then show ?case
    by (auto split: option.splits outcome.splits if_splits dest: Validate_returns)
qed

lemma validate_output_data_vecs_in_bounds:
  assumes "idx + length vecs \<le> length fs"
      and "\<forall>j < length vecs. \<forall>ad. vecs ! j = Some ad \<longrightarrow>
             is_binary_like (type_id (field_type (fs ! (idx + j)))) \<longrightarrow> 3 \<le> length (buffers ad)"
  shows "validate_output_data_vecs fs idx vecs rows \<noteq> OutOfBounds"
  using assms
proof (induction vecs arbitrary: idx)
  case Nil
  then show ?case by simp
next
  case (Cons v vecs)
  have "\<forall>j < length vecs. \<forall>ad. vecs ! j = Some ad \<longrightarrow>
          is_binary_like (type_id (field_type (fs ! (idx + 1 + j)))) \<longrightarrow> 3 \<le> length (buffers ad)"
    using Cons.prems(2) by (auto dest: spec [of _ "Suc j" for j])
  with Cons.prems(1) have rest: "validate_output_data_vecs fs (idx + 1) vecs rows \<noteq> OutOfBounds"
    by (intro Cons.IH) simp_all
  from Cons.prems(1) have here: "vector_at fs idx = Some (fs ! idx)"
    by (simp add: vector_at_def)
  have "ValidateArrayDataCapacity ad (fs ! idx) rows \<noteq> OutOfBounds" if "v = Some ad" for ad
  proof (cases "is_binary_like (type_id (field_type (fs ! idx)))")
    case True
    with Cons.prems(2) that have "3 \<le> length (buffers ad)"
      by (auto dest: spec [of _ 0])
    then show ?thesis
      by (rule Validate_in_bounds)
  next
    case False
    then show ?thesis
      by (rule Validate_fixed_width_in_bounds)
  qed
  with rest here show ?case
    by (auto split: option.splits outcome.splits)
qed

text \<open>
  C8. For a field of a variable-length (binary-like) type whose column has a data buffer
  (a third buffer) that is not resizable, \<open>ValidateArrayDataCapacity\<close> returns an
  invalid-argument status for every row count and every capacity of the buffers: with
  the message about the resizable buffer when the bitmap and the offsets are large enough,
  and its result does not depend on the capacity of the data buffer. In the entry point
  with buffers of the caller, such a column (when no column of a variable-length field has
  fewer than three buffers) makes \<open>Evaluate\<close> return an invalid-argument status without
  calling \<open>Execute\<close>.
\<close>

theorem varlen_data_buffer_must_be_resizable:
  fixes b :: "('c, 'g, 'n) backend" and this :: "('c, 'g) Projector"
  shows
    "(is_binary_like (type_id (field_type field)) \<and> vector_at (buffers ad) 2 = Some data \<and>
      \<not> is_resizable data \<longrightarrow>
        (\<exists>msg. ValidateArrayDataCapacity ad field n = Returns (Invalid msg))) \<and>
     (is_binary_like (type_id (field_type field)) \<and>
      buffers ad = bitmap # offsets # data # others \<and> \<not> is_resizable data \<and>
      BytesForBits n \<le> capacity bitmap \<and>
      BytesForBits (int64 (int64 (n + 1) * 32)) \<le> capacity offsets \<longrightarrow>
        ValidateArrayDataCapacity ad field n =
          Returns (Invalid ''data buffer for varlen output vectors must be resizable'')) \<and>
     (is_binary_like (type_id (field_type field)) \<and>
      buffers ad = bitmap # offsets # data # others \<longrightarrow>
        ValidateArrayDataCapacity
          (ad\<lparr>buffers := bitmap # offsets # data\<lparr>capacity := cap\<rparr> # others\<rparr>) field n =
        ValidateArrayDataCapacity ad field n) \<and>
     (i < length vecs \<and> vecs ! i = Some ad \<and> vector_at (output_fields this) i = Some field \<and>
      is_binary_like (type_id (field_type field)) \<and> vector_at (buffers ad) 2 = Some data \<and>
      \<not> is_resizable data \<and>
      (\<forall>j < length vecs. \<forall>a. vecs ! j = Some a \<longrightarrow>
         is_binary_like (type_id (field_type (output_fields this ! j))) \<longrightarrow>
         3 \<le> length (buffers a)) \<longrightarrow>
        (\<exists>msg. fst (Evaluate b this batch selection_vector vecs) = Returns (Invalid msg)) \<and>
        fst (snd (Evaluate b this batch selection_vector vecs)) = [])"
proof (intro conjI impI)
  assume "is_binary_like (type_id (field_type field)) \<and> vector_at (buffers ad) 2 = Some data \<and>
      \<not> is_resizable data"
  then show "\<exists>msg. ValidateArrayDataCapacity ad field n = Returns (Invalid msg)"
    using Validate_not_resizable by blast
next
  assume "is_binary_like (type_id (field_type field)) \<and>
      buffers ad = bitmap # offsets # data # others \<and> \<not> is_resizable data \<and>
      BytesForBits n \<le> capacity bitmap \<and>
      BytesForBits (int64 (int64 (n + 1) * 32)) \<le> capacity offsets"
  then show "ValidateArrayDataCapacity ad field n =
      Returns (Invalid ''data buffer for varlen output vectors must be resizable'')"
    by (simp add: ValidateArrayDataCapacity_def Let_def)
next
  assume "is_binary_like (type_id (field_type field)) \<and>
      buffers ad = bitmap # offsets # data # others"
  then show "ValidateArrayDataCapacity
      (ad\<lparr>buffers := bitmap # offsets # data\<lparr>capacity := cap\<rparr> # others\<rparr>) field n =
    ValidateArrayDataCapacity ad field n"
    by (simp add: ValidateArrayDataCapacity_def Let_def)
next
  assume a: "i < length vecs \<and> vecs ! i = Some ad \<and>
      vector_at (output_fields this) i = Some field \<and>
      is_binary_like (type_id (field_type field)) \<and> vector_at (buffers ad) 2 = Some data \<and>
      \<not> is_resizable data \<and>
      (\<forall>j < length vecs. \<forall>a. vecs ! j = Some a \<longrightarrow>
         is_binary_like (type_id (field_type (output_fields this ! j))) \<longrightarrow>
         3 \<le> length (buffers a))"
  define rows where "rows = (case selection_vector of
      None \<Rightarrow> num_rows batch | Some sv \<Rightarrow> GetNumSlots sv)"
  define loop where "loop = validate_output_data_vecs (output_fields this) 0 vecs rows"
  from a have refused: "\<exists>msg. ValidateArrayDataCapacity ad field rows = Returns (Invalid msg)"
    using Validate_not_resizable by blast
  from a refused have not_ok: "loop \<noteq> Returns OK"
    unfolding loop_def by (intro validate_output_data_vecs_refused [of i _ ad _ _ field]) simp_all
  have "(\<exists>msg. fst (Evaluate b this batch selection_vector vecs) = Returns (Invalid msg)) \<and>
        fst (snd (Evaluate b this batch selection_vector vecs)) = []"
  proof (cases "ValidateEvaluateArgsCommon this batch = OK \<and>
                length vecs = length (output_fields this)")
    case False
    then show ?thesis
      by (auto simp: Evaluate_def Let_def ValidateEvaluateArgsCommon_def split: if_splits)
  next
    case True
    with a have "loop \<noteq> OutOfBounds"
      unfolding loop_def by (intro validate_output_data_vecs_in_bounds) simp_all
    with not_ok obtain st where st: "loop = Returns st" "st \<noteq> OK"
      by (cases loop) auto
    then have "is_Invalid st"
      using validate_output_data_vecs_returns [of "output_fields this" 0 vecs rows st]
      by (simp add: loop_def)
    then obtain msg where "st = Invalid msg"
      by (cases st) simp_all
    with True st show ?thesis
      by (simp add: Evaluate_def Let_def flip: rows_def loop_def)
  qed
  then show "\<exists>msg. fst (Evaluate b this batch selection_vector vecs) = Returns (Invalid msg)"
    and "fst (snd (Evaluate b this batch selection_vector vecs)) = []"
    by simp_all
qed


theorem varlen_data_buffer_must_be_resizable_witness:
  "ValidateArrayDataCapacity
      (column utf8_field [buffer_of 2 False, buffer_of 44 False, buffer_of 4096 False])
      utf8_field 10 =
     Returns (Invalid ''data buffer for varlen output vectors must be resizable'') \<and>
   ValidateArrayDataCapacity
      (column utf8_field
         [buffer_of 2 False, buffer_of 44 False, (buffer_of 4096 False)\<lparr>capacity := 0\<rparr>])
      utf8_field 10 =
     Returns (Invalid ''data buffer for varlen output vectors must be resizable'') \<and>
   (\<exists>msg. ValidateArrayDataCapacity
      (column utf8_field [buffer_of 0 False, buffer_of 0 False, buffer_of 4096 False])
      utf8_field 10 = Returns (Invalid msg)) \<and>
   fst (Evaluate example_backend example_projector
      \<lparr>batch_schema = [int32_field, utf8_field], num_rows = 10\<rparr> None
      [Some (column int32_field [buffer_of 2 False, buffer_of 40 False]),
       Some (column utf8_field [buffer_of 2 False, buffer_of 44 False, buffer_of 4096 False])]) =
     Returns (Invalid ''data buffer for varlen output vectors must be resizable'') \<and>
   fst (snd (Evaluate example_backend example_projector
      \<lparr>batch_schema = [int32_field, utf8_field], num_rows = 10\<rparr> None
      [Some (column int32_field [buffer_of 2 False, buffer_of 40 False]),
       Some (column utf8_field [buffer_of 2 False, buffer_of 44 False, buffer_of 4096 False])])) =
     []"
proof -
  define big where "big = column utf8_field
      [buffer_of 2 False, buffer_of 44 False, buffer_of 4096 False]"
  define vecs where "vecs =
      [Some (column int32_field [buffer_of 2 False, buffer_of 40 False]), Some big]"
  have bin: "is_binary_like (type_id (field_type utf8_field))"
    by (simp add: utf8_field_def)
  have fixed: "\<not> is_binary_like (type_id (field_type int32_field))"
    by (simp add: int32_field_def)
  have third: "vector_at (buffers big) 2 = Some (buffer_of 4096 False)"
    "buffers big = [buffer_of 2 False, buffer_of 44 False, buffer_of 4096 False]"
    "\<not> is_resizable (buffer_of 4096 False)"
    by (simp_all add: big_def column_def buffer_of_def)
  have enough: "BytesForBits 10 \<le> capacity (buffer_of 2 False)"
    "BytesForBits (int64 (int64 (10 + 1) * 32)) \<le> capacity (buffer_of 44 False)"
    by (simp_all add: BytesForBits_def int64_def buffer_of_def)
  have pos: "(1 :: nat) < length vecs" "vecs ! 1 = Some big"
    "vector_at (output_fields example_projector) 1 = Some utf8_field"
    by (simp_all add: vecs_def example_projector_def)
  have three: "\<forall>j < length vecs. \<forall>a. vecs ! j = Some a \<longrightarrow>
      is_binary_like (type_id (field_type (output_fields example_projector ! j))) \<longrightarrow>
      3 \<le> length (buffers a)"
    using fixed by (auto simp: vecs_def example_projector_def big_def column_def less_Suc_eq)
  note t = varlen_data_buffer_must_be_resizable [where field = utf8_field and ad = big
      and data = "buffer_of 4096 False" and n = 10 and bitmap = "buffer_of 2 False"
      and offsets = "buffer_of 44 False" and others = "[]" and cap = 0
      and i = 1 and vecs = vecs and this = example_projector and b = example_backend
      and batch = "\<lparr>batch_schema = [int32_field, utf8_field], num_rows = 10\<rparr>"
      and selection_vector = None]
  note u = varlen_data_buffer_must_be_resizable [where field = utf8_field
      and ad = "column utf8_field [buffer_of 0 False, buffer_of 0 False, buffer_of 4096 False]"
      and data = "buffer_of 4096 False" and n = 10 and bitmap = "buffer_of 0 False"
      and offsets = "buffer_of 0 False" and others = "[]" and cap = 0
      and i = 1 and vecs = vecs and this = example_projector and b = example_backend
      and batch = "\<lparr>batch_schema = [int32_field, utf8_field], num_rows = 10\<rparr>"
      and selection_vector = None]
  have 1: "ValidateArrayDataCapacity big utf8_field 10 =
      Returns (Invalid ''data buffer for varlen output vectors must be resizable'')"
    using t bin third enough by blast
  have 2: "ValidateArrayDataCapacity
      (column utf8_field
         [buffer_of 2 False, buffer_of 44 False, (buffer_of 4096 False)\<lparr>capacity := 0\<rparr>])
      utf8_field 10 = ValidateArrayDataCapacity big utf8_field 10"
    using t bin third by (simp add: big_def column_def buffer_of_def)
  have 3: "\<exists>msg. ValidateArrayDataCapacity
      (column utf8_field [buffer_of 0 False, buffer_of 0 False, buffer_of 4096 False])
      utf8_field 10 = Returns (Invalid msg)"
    using u bin third(3) by (simp add: column_def)
  have 4: "fst (snd (Evaluate example_backend example_projector
      \<lparr>batch_schema = [int32_field, utf8_field], num_rows = 10\<rparr> None vecs)) = []"
    using t bin third pos three by blast
  have 5: "fst (Evaluate example_backend example_projector
      \<lparr>batch_schema = [int32_field, utf8_field], num_rows = 10\<rparr> None vecs) =
      Returns (Invalid ''data buffer for varlen output vectors must be resizable'')"
    by (simp add: Evaluate_def ValidateEvaluateArgsCommon_def Schema_Equals_def
        example_projector_def vecs_def big_def column_def buffer_of_def Let_def
        ValidateArrayDataCapacity_def BytesForBits_def int64_def utf8_field_def int32_field_def)
  from 1 2 3 4 5 show ?thesis
    by (simp add: big_def vecs_def)
qed



end
